theory Spec2Isabelle
  imports Main "HOL-Library.Word"
begin

unbundle bit_operations_syntax

section \<open>CBOR heads\<close>

text \<open>
  A CBOR data item starts with a head: one byte holding the major type in its three high
  bits and the additional information in its five low bits, followed by 0, 1, 2, 4 or 8
  bytes of big-endian argument.  Bytes are \<open>8 word\<close>, arguments are \<open>64 word\<close> (Go's
  \<open>uint64\<close>).
\<close>

type_synonym byte = "8 word"
type_synonym uint64 = "64 word"

text \<open>\<open>cborType\<close> of decode.go; \<open>cborTypeByte\<close> gives the constant of each name.\<close>

datatype cborType =
    cborTypePositiveInt | cborTypeNegativeInt | cborTypeByteString | cborTypeTextString
  | cborTypeArray | cborTypeMap | cborTypeTag | cborTypePrimitives

fun cborTypeByte :: "cborType \<Rightarrow> byte" where
  "cborTypeByte cborTypePositiveInt = 0x00"
| "cborTypeByte cborTypeNegativeInt = 0x20"
| "cborTypeByte cborTypeByteString = 0x40"
| "cborTypeByte cborTypeTextString = 0x60"
| "cborTypeByte cborTypeArray = 0x80"
| "cborTypeByte cborTypeMap = 0xa0"
| "cborTypeByte cborTypeTag = 0xc0"
| "cborTypeByte cborTypePrimitives = 0xe0"

text \<open>The conversion \<open>cborType(b & 0xe0)\<close> used by \<open>getHead\<close> and \<open>nextCBORType\<close>.\<close>

definition cborTypeOf :: "byte \<Rightarrow> cborType" where
  "cborTypeOf b =
     (let m = b AND 0xe0 in
      if m = 0x00 then cborTypePositiveInt
      else if m = 0x20 then cborTypeNegativeInt
      else if m = 0x40 then cborTypeByteString
      else if m = 0x60 then cborTypeTextString
      else if m = 0x80 then cborTypeArray
      else if m = 0xa0 then cborTypeMap
      else if m = 0xc0 then cborTypeTag
      else cborTypePrimitives)"

text \<open>
  \<open>binary.BigEndian.PutUint16/32/64\<close> and \<open>binary.BigEndian.Uint16/32/64\<close> of Go's
  library, byte by byte as the library writes them.
\<close>

definition bigEndianPutUint16 :: "uint64 \<Rightarrow> byte list" where
  "bigEndianPutUint16 n = [ucast (drop_bit 8 n), ucast n]"

definition bigEndianPutUint32 :: "uint64 \<Rightarrow> byte list" where
  "bigEndianPutUint32 n =
     [ucast (drop_bit 24 n), ucast (drop_bit 16 n), ucast (drop_bit 8 n), ucast n]"

definition bigEndianPutUint64 :: "uint64 \<Rightarrow> byte list" where
  "bigEndianPutUint64 n =
     [ucast (drop_bit 56 n), ucast (drop_bit 48 n), ucast (drop_bit 40 n),
      ucast (drop_bit 32 n), ucast (drop_bit 24 n), ucast (drop_bit 16 n),
      ucast (drop_bit 8 n), ucast n]"

fun bigEndianUint :: "byte list \<Rightarrow> uint64 \<Rightarrow> uint64" where
  "bigEndianUint [] acc = acc"
| "bigEndianUint (b # bs) acc = bigEndianUint bs (push_bit 8 acc OR ucast b)"

subsection \<open>The head encoder of the tests\<close>

text \<open>
  \<open>encodeCborHeader\<close> of encode_test.go: the tests build the expected head of long
  strings, arrays and maps with it and compare the encoder's output against it.
\<close>

definition encodeCborHeader :: "cborType \<Rightarrow> uint64 \<Rightarrow> byte list" where
  "encodeCborHeader t n =
     (if n \<le> 23 then [cborTypeByte t OR ucast n]
      else if n \<le> 0xff then [cborTypeByte t OR 24, ucast n]
      else if n \<le> 0xffff then (cborTypeByte t OR 25) # bigEndianPutUint16 n
      else if n \<le> 0xffffffff then (cborTypeByte t OR 26) # bigEndianPutUint32 n
      else (cborTypeByte t OR 27) # bigEndianPutUint64 n)"

subsection \<open>The encoder's head\<close>

text \<open>
  Modelled from the spec: the encoder (encode.go) is not among the sources.  The spec
  (4.2) says: "Integers and all lengths use the minimal header width that represents the
  value, unconditionally (e.g. 23 -> one byte; 24 -> two bytes; 256 -> three bytes)".
  A head has 0, 1, 2, 4 or 8 argument bytes; with no argument byte the value is the
  additional information itself, which must stay below 24.  \<open>minimalWidth\<close> is the first
  width, in increasing order, that represents the value.
\<close>

definition headWidths :: "nat list" where
  "headWidths = [0, 1, 2, 4, 8]"

definition fitsWidth :: "nat \<Rightarrow> uint64 \<Rightarrow> bool" where
  "fitsWidth w n = (if w = 0 then unat n < 24 else unat n < 2 ^ (8 * w))"

definition minimalWidth :: "uint64 \<Rightarrow> nat" where
  "minimalWidth n = (case List.find (\<lambda>w. fitsWidth w n) headWidths of Some w \<Rightarrow> w | None \<Rightarrow> 8)"

text \<open>The \<open>w\<close> low bytes of the value, most significant first.\<close>

fun argumentBytes :: "nat \<Rightarrow> uint64 \<Rightarrow> byte list" where
  "argumentBytes 0 n = []"
| "argumentBytes (Suc k) n = ucast (drop_bit (8 * k) n) # argumentBytes k n"

definition additionalInfo :: "nat \<Rightarrow> uint64 \<Rightarrow> byte" where
  "additionalInfo w n =
     (if w = 0 then ucast n else if w = 1 then 24 else if w = 2 then 25
      else if w = 4 then 26 else 27)"

definition encodeHead :: "cborType \<Rightarrow> uint64 \<Rightarrow> byte list" where
  "encodeHead t n =
     (let w = minimalWidth n in (cborTypeByte t OR additionalInfo w n) # argumentBytes w n)"

text \<open>
  Modelled from the spec: an integer is a head of major type 0 carrying the value, or of
  major type 1 carrying \<open>-1 - value\<close>.  The argument is in the range of \<open>uint64\<close> for the
  values of Go's integer types.
\<close>

definition encodeInt :: "int \<Rightarrow> byte list" where
  "encodeInt i =
     (if 0 \<le> i then encodeHead cborTypePositiveInt (word_of_int i)
      else encodeHead cborTypeNegativeInt (word_of_int (- 1 - i)))"

text \<open>The integer rows of \<open>marshalTests\<close> (encode_test.go): expected bytes and value.\<close>

definition marshalTests :: "(byte list \<times> int) list" where
  "marshalTests =
    [([0x00], 0), ([0x01], 1), ([0x0a], 10), ([0x17], 23), ([0x18, 0x18], 24),
     ([0x18, 0x19], 25), ([0x18, 0x64], 100), ([0x18, 0xff], 255),
     ([0x19, 0x01, 0x00], 256), ([0x19, 0x03, 0xe8], 1000), ([0x19, 0xff, 0xff], 65535),
     ([0x1a, 0x00, 0x01, 0x00, 0x00], 65536), ([0x1a, 0x00, 0x0f, 0x42, 0x40], 1000000),
     ([0x1a, 0xff, 0xff, 0xff, 0xff], 4294967295),
     ([0x1b, 0x00, 0x00, 0x00, 0xe8, 0xd4, 0xa5, 0x10, 0x00], 1000000000000),
     ([0x1b, 0xff, 0xff, 0xff, 0xff, 0xff, 0xff, 0xff, 0xff], 18446744073709551615),
     ([0x20], - 1), ([0x29], - 10), ([0x37], - 24), ([0x38, 0x18], - 25),
     ([0x38, 0x63], - 100), ([0x38, 0xff], - 256), ([0x39, 0x01, 0x00], - 257),
     ([0x39, 0x03, 0xe7], - 1000), ([0x39, 0xff, 0xff], - 65536),
     ([0x3a, 0x00, 0x01, 0x00, 0x00], - 65537), ([0x3a, 0xff, 0xff, 0xff, 0xff], - 4294967296)]"

subsection \<open>Reading a head\<close>

text \<open>
  \<open>decoder.getHead\<close> of decode.go on the bytes from the read offset on: the type, the
  additional information, the argument and the bytes after the head.  The source "assumes
  data is well-formed, and does not perform bounds checking": a read past the end of the
  data panics in Go, which is \<open>None\<close> here.
\<close>

definition getHead :: "byte list \<Rightarrow> (cborType \<times> byte \<times> uint64 \<times> byte list) option" where
  "getHead dat =
     (case dat of
        [] \<Rightarrow> None
      | b # rest \<Rightarrow>
          (let t = cborTypeOf b; ai = b AND 0x1f in
           if ai < 24 then Some (t, ai, ucast ai, rest)
           else if ai = 24 then
             (case rest of [] \<Rightarrow> None | c # rest' \<Rightarrow> Some (t, ai, ucast c, rest'))
           else if ai = 25 then
             (if length rest < 2 then None
              else Some (t, ai, bigEndianUint (take 2 rest) 0, drop 2 rest))
           else if ai = 26 then
             (if length rest < 4 then None
              else Some (t, ai, bigEndianUint (take 4 rest) 0, drop 4 rest))
           else if ai = 27 then
             (if length rest < 8 then None
              else Some (t, ai, bigEndianUint (take 8 rest) 0, drop 8 rest))
           else Some (t, ai, ucast ai, rest)))"


section \<open>Data items\<close>

text \<open>
  \<open>Unmarshal\<close> first runs the well-formedness pass \<open>decoder.valid\<close> over the data and
  only then the parsing functions, each of which "assumes data is well-formed, and does
  not perform bounds checking" (decode.go).  At every call of a parsing function the read
  offset \<open>d.off\<close> stands at the head of a complete data item.  The model gives the parsing
  functions that item as a tree: what \<open>getHead\<close> returns at its head, and the items
  nested in it.  \<open>d.skip()\<close> moves past one item; in the model the item is left unread.

  The flag of strings, arrays and maps is \<open>hasSize\<close> of the source (\<open>ai \<noteq> 31\<close>): a definite
  length.  A string with a definite length has one chunk.  Text is kept as Go keeps it, a
  sequence of bytes, written as an Isabelle \<open>string\<close>.
\<close>

datatype item =
    IUint uint64
  | INint uint64
  | IBytes bool "byte list list"
  | IText bool "string list"
  | IArray bool "item list"
  | IMap bool "(item \<times> item) list"
  | ITag uint64 item
  | IPrim byte uint64

text \<open>\<open>decoder.nextCBORType\<close> and \<open>decoder.nextCBORNil\<close>: the type bits of the byte under
  the offset, and whether that byte is 0xf6 (null) or 0xf7 (undefined).\<close>

fun nextCBORType :: "item \<Rightarrow> cborType" where
  "nextCBORType (IUint _) = cborTypePositiveInt"
| "nextCBORType (INint _) = cborTypeNegativeInt"
| "nextCBORType (IBytes _ _) = cborTypeByteString"
| "nextCBORType (IText _ _) = cborTypeTextString"
| "nextCBORType (IArray _ _) = cborTypeArray"
| "nextCBORType (IMap _ _) = cborTypeMap"
| "nextCBORType (ITag _ _) = cborTypeTag"
| "nextCBORType (IPrim _ _) = cborTypePrimitives"

text \<open>
  The first byte of an item, \<open>d.data[d.off]\<close>.  For major type 7 it is exact.  For the
  other types the additional information is left 0: the decoder reads it through
  \<open>getHead\<close> only, and the two functions that look at the raw byte (\<open>nextCBORNil\<close>,
  \<open>validBuiltinTag\<close>) compare it with bytes of major type 7 or mask it with 0xe0.
\<close>

fun headByte :: "item \<Rightarrow> byte" where
  "headByte (IPrim ai _) = 0xe0 OR (ai AND 0x1f)"
| "headByte it = cborTypeByte (nextCBORType it)"

definition nextCBORNil :: "item \<Rightarrow> bool" where
  "nextCBORNil it = (headByte it = 0xf6 \<or> headByte it = 0xf7)"

definition selfDescribedCBORTagNum :: uint64 where
  "selfDescribedCBORTagNum = 55799"

text \<open>The item after all leading tag numbers: the loops
  \<open>for d.nextCBORType() == cborTypeTag { d.getHead() }\<close>.\<close>

fun stripTags :: "item \<Rightarrow> item" where
  "stripTags (ITag _ c) = stripTags c"
| "stripTags it = it"

fun tagNumsOf :: "item \<Rightarrow> uint64 list" where
  "tagNumsOf (ITag n c) = n # tagNumsOf c"
| "tagNumsOf it = []"

section \<open>Go types and values\<close>

text \<open>
  The decoder is driven by the type of its target, which it inspects through \<open>reflect\<close>.
  The model has Go's types as a datatype and a \<open>reflect.Value\<close> as the pair of a type and
  the content of the variable.  The types are: bool; the signed and unsigned integers
  of each size; float32 and float64; string; \<open>cbor.ByteString\<close>; slices, arrays, maps and
  pointers; the empty interface \<open>any\<close>; structs; \<open>time.Time\<close>, \<open>big.Int\<close>, \<open>cbor.Tag\<close>; and
  types with an \<open>UnmarshalCBOR\<close> method.

  Outside the model: interface types with methods (\<open>specialTypeIface\<close>), types
  implementing \<open>encoding.BinaryUnmarshaler\<close>, struct fields reached through embedded
  structs (\<open>len(f.idx) > 1\<close>, which needs \<open>getFieldValue\<close> of structfields.go), and values
  that \<open>reflect\<close> cannot set.
\<close>

datatype isize = SzNative | Sz8 | Sz16 | Sz32 | Sz64

fun bitSize :: "isize \<Rightarrow> nat" where
  "bitSize SzNative = 64"
| "bitSize Sz8 = 8"
| "bitSize Sz16 = 16"
| "bitSize Sz32 = 32"
| "bitSize Sz64 = 64"

text \<open>
  \<open>field\<close> and \<open>decodingStructType\<close> as decode.go uses them: the name of a field, whether
  the name is an integer key and that integer, the index of the field in the struct
  (\<open>f.idx[0]\<close>) and its type (\<open>f.typInfo\<close>);
  the fields (\<open>structType.fields\<close>), the error found when the
  struct type was analysed (\<open>structType.err\<close>), and the toarray option.
\<close>

datatype 't fld =
  Fld (fname: string) (keyAsInt: bool) (nameAsInt: int) (idx: nat) (ftyp: 't)

datatype 't decodingStructType =
  DecodingStructType (structFields: "'t fld list") (typeErr: "string option") (toArray: bool)

text \<open>
  A struct type: its name, the types of all its Go fields in declaration order, and
  what \<open>getDecodingStructType\<close> (structfields.go, not among the sources) has resolved for
  it.
\<close>

datatype gotype =
    TBool
  | TInt isize
  | TUint isize
  | TFloat32
  | TFloat64
  | TString
  | TByteString
  | TSlice gotype
  | TArray nat gotype
  | TMap gotype gotype
  | TPtr gotype
  | TIface
  | TStruct string "gotype list" "gotype decodingStructType"
  | TTime
  | TBigInt
  | TTag
  | TUnmarshaler string

text \<open>
  Floating-point numbers and times are kept as what the decoder builds them from: the
  bits of a CBOR float (\<open>float16.Frombits\<close>, \<open>math.Float32frombits\<close>,
  \<open>math.Float64frombits\<close>), the integer of a conversion \<open>float64(val)\<close>, the arguments of
  \<open>time.Unix\<close>, the text given to \<open>time.Parse\<close>.  No claim below depends on their
  numerical value.
\<close>

datatype gofloat =
    Float16frombits "16 word"
  | Float32frombits "32 word"
  | Float64frombits uint64
  | FloatOfUint uint64
  | FloatOfInt int

datatype gotime =
    TimeZero
  | TimeUnix int int
  | TimeUnixFloat gofloat
  | TimeRFC3339 string

text \<open>
  The content of a variable.  A slice is nil or its backing elements up to the capacity
  and its length; a map is nil or its entries with distinct keys, in the order they were
  first set; a pointer is nil or owns what it points to; an interface value is nil or
  holds a value with its dynamic type.
\<close>

datatype goval =
    VBool bool
  | VInt int
  | VUint nat
  | VFloat gofloat
  | VString string
  | VSlice "(goval list \<times> nat) option"
  | VArray "goval list"
  | VMap "(goval \<times> goval) list option"
  | VPtr "goval option"
  | VIface "(gotype \<times> goval) option"
  | VStruct "goval list"
  | VTime gotime
  | VBigInt int
  | VTag uint64 "(gotype \<times> goval) option"
  | VOpaque nat

type_synonym any = "(gotype \<times> goval) option"
type_synonym rvalue = "gotype \<times> goval"

text \<open>\<open>reflect.Kind\<close>, with the integer kinds of each size taken together as the source's
  switches take them.\<close>

datatype kind =
    KBool | KInt | KUint | KFloat | KString | KSlice | KArray | KMap | KPtr | KInterface
  | KStruct

fun kindOf :: "gotype \<Rightarrow> kind" where
  "kindOf TBool = KBool"
| "kindOf (TInt _) = KInt"
| "kindOf (TUint _) = KUint"
| "kindOf TFloat32 = KFloat"
| "kindOf TFloat64 = KFloat"
| "kindOf TString = KString"
| "kindOf TByteString = KString"
| "kindOf (TSlice _) = KSlice"
| "kindOf (TArray _ _) = KArray"
| "kindOf (TMap _ _) = KMap"
| "kindOf (TPtr _) = KPtr"
| "kindOf TIface = KInterface"
| "kindOf (TStruct _ _ _) = KStruct"
| "kindOf TTime = KStruct"
| "kindOf TBigInt = KStruct"
| "kindOf TTag = KStruct"
| "kindOf (TUnmarshaler _) = KStruct"

text \<open>\<open>reflect.Zero\<close>: the zero value of a type.\<close>

fun zero :: "gotype \<Rightarrow> goval" where
  "zero TBool = VBool False"
| "zero (TInt _) = VInt 0"
| "zero (TUint _) = VUint 0"
| "zero TFloat32 = VFloat (Float64frombits 0)"
| "zero TFloat64 = VFloat (Float64frombits 0)"
| "zero TString = VString []"
| "zero TByteString = VString []"
| "zero (TSlice _) = VSlice None"
| "zero (TArray n t) = VArray (replicate n (zero t))"
| "zero (TMap _ _) = VMap None"
| "zero (TPtr _) = VPtr None"
| "zero TIface = VIface None"
| "zero (TStruct _ ts _) = VStruct (map zero ts)"
| "zero TTime = VTime TimeZero"
| "zero TBigInt = VBigInt 0"
| "zero TTag = VTag 0 None"
| "zero (TUnmarshaler _) = VOpaque 0"

subsection \<open>Type information\<close>

text \<open>
  Modelled from the spec: \<open>typeInfo\<close> and \<open>getTypeInfo\<close> (cache.go) are not among the
  sources.  The spec (3) describes the descriptor cached per type: "special-kind
  classification (time/bignum/tag-wrapper/custom-hook), nilability", and decode.go reads
  its fields \<open>typ\<close>, \<open>nonPtrType\<close>, \<open>nonPtrKind\<close>, \<open>spclType\<close>, \<open>elemTypeInfo\<close> and
  \<open>keyTypeInfo\<close>.  The model computes them from the type: \<open>nonPtrType\<close> is the type under
  all pointers, and the special classification is that of \<open>nonPtrType\<close>.
\<close>

datatype specialType =
    specialTypeNone | specialTypeUnmarshalerIface | specialTypeEmptyIface
  | specialTypeTag | specialTypeTime

fun nonPtrType :: "gotype \<Rightarrow> gotype" where
  "nonPtrType (TPtr t) = nonPtrType t"
| "nonPtrType t = t"

definition nonPtrKind :: "gotype \<Rightarrow> kind" where
  "nonPtrKind t = kindOf (nonPtrType t)"

definition spclType :: "gotype \<Rightarrow> specialType" where
  "spclType t =
     (case nonPtrType t of
        TIface \<Rightarrow> specialTypeEmptyIface
      | TTag \<Rightarrow> specialTypeTag
      | TTime \<Rightarrow> specialTypeTime
      | TUnmarshaler _ \<Rightarrow> specialTypeUnmarshalerIface
      | _ \<Rightarrow> specialTypeNone)"

text \<open>\<open>elemTypeInfo\<close> and \<open>keyTypeInfo\<close> of a slice, array or map type (under pointers).\<close>

definition elemType :: "gotype \<Rightarrow> gotype" where
  "elemType t =
     (case nonPtrType t of TSlice e \<Rightarrow> e | TArray _ e \<Rightarrow> e | TMap _ e \<Rightarrow> e | u \<Rightarrow> u)"

definition keyType :: "gotype \<Rightarrow> gotype" where
  "keyType t = (case nonPtrType t of TMap k _ \<Rightarrow> k | u \<Rightarrow> u)"

text \<open>
  Modelled from the spec: \<open>getDecodingStructType\<close> (structfields.go) is not among the
  sources.  For a struct type it is the resolved field list the type carries; the other
  types of struct kind that reach it (\<open>big.Int\<close>) have no exported field.
\<close>

definition getDecodingStructType :: "gotype \<Rightarrow> gotype decodingStructType" where
  "getDecodingStructType t =
     (case t of TStruct _ _ st \<Rightarrow> st | _ \<Rightarrow> DecodingStructType [] None False)"

section \<open>Errors\<close>

text \<open>
  The error types of decode.go.  \<open>UnmarshalTypeError\<close> has the CBOR type, the Go type,
  the struct field (type and field name, where the source concatenates their names) and
  the additional message; messages are kept as what they are built from.  The values made
  with \<open>errors.New\<close> are constructors of their own.  \<open>Panic\<close> is a run-time panic of Go.
\<close>

datatype errorMsg =
    NoMsg
  | MsgOverflowsInt64 int
  | MsgOverflows int gotype
  | MsgFloatOverflows gofloat gotype
  | MsgExpectTag
  | MsgNotToArray
  | MsgIsToArray
  | MsgDifferentNumberOfElements
  | MsgMapKeyType cborType

datatype error =
    InvalidUnmarshalError string
  | UnmarshalTypeError cborType gotype "(gotype \<times> string) option" errorMsg
  | DupMapKeyError any nat
  | UnknownFieldError nat
  | SemanticError string
  | WrongTagError gotype "uint64 list" "uint64 list"
  | ErrBuiltinTag uint64 cborType
  | ErrTimeTagNumber uint64
  | ErrTimeParse string
  | ErrInvalidMapKeyType gotype
  | ErrStructType string
  | ErrAssertUnmarshaler gotype
  | ErrUnmarshalCBOR string
  | ErrNotWellFormed string
  | ErrInvalidOption string
  | Panic string

type_synonym result = "error option \<times> goval"

text \<open>\<open>if err == nil { err = lastErr }\<close>\<close>

fun keepFirst :: "error option \<Rightarrow> error \<Rightarrow> error option" where
  "keepFirst None lastErr = Some lastErr"
| "keepFirst (Some e) lastErr = Some e"

section \<open>Library functions\<close>

text \<open>
  Functions of Go's library and of other packages that the decoder calls and whose
  result the model does not compute are parameters: \<open>utf8.Valid\<close>, \<open>strings.EqualFold\<close>,
  whether \<open>time.Parse(time.RFC3339, s)\<close> succeeds, \<open>math.IsNaN(c) || math.IsInf(c, 0)\<close>,
  \<open>reflect.Value.OverflowFloat\<close> on a float32, the \<open>UnmarshalCBOR\<close> method of a type
  that has one (given the name of the type, the item and the current value), and Go's
  \<open>==\<close> on two values of one type, by which the maps of the runtime compare their keys
  (numerically on floats, by address on pointers).
\<close>

record lib =
  utf8Valid :: "string \<Rightarrow> bool"
  equalFold :: "string \<Rightarrow> string \<Rightarrow> bool"
  timeParse :: "string \<Rightarrow> bool"
  isNaNOrInf :: "gofloat \<Rightarrow> bool"
  overflowFloat32 :: "gofloat \<Rightarrow> bool"
  unmarshalCBOR :: "string \<Rightarrow> item \<Rightarrow> goval \<Rightarrow> error option \<times> goval"
  valEq :: "goval \<Rightarrow> goval \<Rightarrow> bool"


section \<open>Decoding modes\<close>

text \<open>The option types of decode.go are Go integers; their constants, in the order of the
  \<open>iota\<close> declarations.\<close>

definition DupMapKeyQuiet :: int where "DupMapKeyQuiet = 0"
definition DupMapKeyEnforcedAPF :: int where "DupMapKeyEnforcedAPF = 1"
definition maxDupMapKeyMode :: int where "maxDupMapKeyMode = 2"

definition IndefLengthAllowed :: int where "IndefLengthAllowed = 0"
definition IndefLengthForbidden :: int where "IndefLengthForbidden = 1"
definition maxIndefLengthMode :: int where "maxIndefLengthMode = 2"

definition TagsAllowed :: int where "TagsAllowed = 0"
definition TagsForbidden :: int where "TagsForbidden = 1"
definition maxTagsMode :: int where "maxTagsMode = 2"

definition IntDecConvertNone :: int where "IntDecConvertNone = 0"
definition IntDecConvertSigned :: int where "IntDecConvertSigned = 1"
definition maxIntDec :: int where "maxIntDec = 2"

definition MapKeyByteStringFail :: int where "MapKeyByteStringFail = 0"
definition MapKeyByteStringWrap :: int where "MapKeyByteStringWrap = 1"
definition maxMapKeyByteString :: int where "maxMapKeyByteString = 2"

definition ExtraDecErrorNone :: uint64 where "ExtraDecErrorNone = 0"
definition ExtraDecErrorUnknownField :: uint64 where "ExtraDecErrorUnknownField = 1"
definition maxExtraDecError :: uint64 where "maxExtraDecError = 2"

text \<open>
  Modelled from the spec: \<open>DecTagMode\<close>, \<open>TagSet\<close> and \<open>tagItem\<close> (tag.go) are not among the
  sources.  The spec (3, 4.5) describes a registered item as a "tag-number-chain <-> type
  mapping with per-direction enable flags" and the registry as a map from type to chain
  and from chain to type.  The model keeps the items in a list; a chain is looked up by
  equality of the whole chain, as \<open>equalTagNum\<close> in \<open>validRegisteredTagNums\<close> compares it.
  A chain leads to an ordinary content type only (not an interface, \<open>time.Time\<close>,
  \<open>cbor.Tag\<close> or a type with its own \<open>UnmarshalCBOR\<close>), since a registry is built of
  such types.
\<close>

datatype DecTagMode = DecTagIgnored | DecTagOptional | DecTagRequired

datatype tagItem =
  TagItem (contentType: gotype) (num: "uint64 list") (decTag: DecTagMode)

definition equalTagNum :: "tagItem \<Rightarrow> uint64 list \<Rightarrow> bool" where
  "equalTagNum t nums = (num t = nums)"

definition getTagItemFromType :: "tagItem list \<Rightarrow> gotype \<Rightarrow> tagItem option" where
  "getTagItemFromType ts vt = List.find (\<lambda>t. contentType t = vt) ts"

definition getTypeFromTagNum :: "tagItem list \<Rightarrow> uint64 list \<Rightarrow> gotype option" where
  "getTypeFromTagNum ts nums =
     map_option contentType
       (List.find (\<lambda>t. equalTagNum t nums \<and> spclType (contentType t) = specialTypeNone) ts)"

text \<open>\<open>DecOptions\<close> and \<open>decMode\<close> of decode.go.  In a \<open>decMode\<close> the default map type is
  kept as the key and element types of that map type: \<open>decMode()\<close> rejects every other
  kind of type.\<close>

record DecOptions =
  DupMapKey :: int
  TimeTag :: DecTagMode
  MaxNestedLevels :: int
  MaxArrayElements :: int
  MaxMapPairs :: int
  IndefLength :: int
  TagsMd :: int
  IntDec :: int
  MapKeyByteString :: int
  ExtraReturnErrors :: uint64
  DefaultMapType :: "gotype option"

record decMode =
  tags :: "tagItem list option"
  dupMapKey :: int
  timeTag :: DecTagMode
  maxNestedLevels :: int
  maxArrayElements :: int
  maxMapPairs :: int
  indefLength :: int
  tagsMd :: int
  intDec :: int
  mapKeyByteString :: int
  extraReturnErrors :: uint64
  defaultMapType :: "(gotype \<times> gotype) option"

definition defaultMaxArrayElements :: int where "defaultMaxArrayElements = 131072"
definition minMaxArrayElements :: int where "minMaxArrayElements = 16"
definition maxMaxArrayElements :: int where "maxMaxArrayElements = 2147483647"
definition defaultMaxMapPairs :: int where "defaultMaxMapPairs = 131072"
definition minMaxMapPairs :: int where "minMaxMapPairs = 16"
definition maxMaxMapPairs :: int where "maxMaxMapPairs = 2147483647"

text \<open>\<open>DecOptions.decMode\<close>: the checks in the order of the source.  (\<open>TimeTag.valid()\<close> is
  in tag.go; every value of the datatype is one of the three modes.)\<close>

definition decMode_of :: "DecOptions \<Rightarrow> error + decMode" where
  "decMode_of opts =
     (if \<not> DupMapKey opts < maxDupMapKeyMode then Inl (ErrInvalidOption ''DupMapKey'')
      else if \<not> IndefLength opts < maxIndefLengthMode then Inl (ErrInvalidOption ''IndefLength'')
      else if \<not> TagsMd opts < maxTagsMode then Inl (ErrInvalidOption ''TagsMd'')
      else if \<not> IntDec opts < maxIntDec then Inl (ErrInvalidOption ''IntDec'')
      else if \<not> MapKeyByteString opts < maxMapKeyByteString
        then Inl (ErrInvalidOption ''MapKeyByteString'')
      else if MaxNestedLevels opts \<noteq> 0 \<and> (MaxNestedLevels opts < 4 \<or> MaxNestedLevels opts > 256)
        then Inl (ErrInvalidOption ''MaxNestedLevels'')
      else if MaxArrayElements opts \<noteq> 0
              \<and> (MaxArrayElements opts < minMaxArrayElements
                  \<or> MaxArrayElements opts > maxMaxArrayElements)
        then Inl (ErrInvalidOption ''MaxArrayElements'')
      else if MaxMapPairs opts \<noteq> 0
              \<and> (MaxMapPairs opts < minMaxMapPairs \<or> MaxMapPairs opts > maxMaxMapPairs)
        then Inl (ErrInvalidOption ''MaxMapPairs'')
      else if \<not> ExtraReturnErrors opts < maxExtraDecError
        then Inl (ErrInvalidOption ''ExtraReturnErrors'')
      else if (case DefaultMapType opts of None \<Rightarrow> False | Some t \<Rightarrow> kindOf t \<noteq> KMap)
        then Inl (ErrInvalidOption ''DefaultMapType'')
      else Inr \<lparr>
        tags = None,
        dupMapKey = DupMapKey opts,
        timeTag = TimeTag opts,
        maxNestedLevels = (if MaxNestedLevels opts = 0 then 32 else MaxNestedLevels opts),
        maxArrayElements =
          (if MaxArrayElements opts = 0 then defaultMaxArrayElements else MaxArrayElements opts),
        maxMapPairs = (if MaxMapPairs opts = 0 then defaultMaxMapPairs else MaxMapPairs opts),
        indefLength = IndefLength opts,
        tagsMd = TagsMd opts,
        intDec = IntDec opts,
        mapKeyByteString = MapKeyByteString opts,
        extraReturnErrors = ExtraReturnErrors opts,
        defaultMapType =
          (case DefaultMapType opts of Some (TMap k e) \<Rightarrow> Some (k, e) | _ \<Rightarrow> None) \<rparr>)"

text \<open>\<open>DecOptions.DecModeWithTags\<close>: the items whose decoding is not switched off are
  copied; an empty copy leaves \<open>tags\<close> nil.  The argument is \<open>None\<close> for a nil \<open>TagSet\<close>.\<close>

definition DecModeWithTags :: "DecOptions \<Rightarrow> tagItem list option \<Rightarrow> error + decMode" where
  "DecModeWithTags opts tagSet =
     (if TagsMd opts = TagsForbidden then Inl (ErrInvalidOption ''TagSet when TagsForbidden'')
      else case tagSet of
        None \<Rightarrow> Inl (ErrInvalidOption ''nil TagSet'')
      | Some syncTags \<Rightarrow>
         (case decMode_of opts of
            Inl e \<Rightarrow> Inl e
          | Inr dm \<Rightarrow>
             (let ts = filter (\<lambda>t. decTag t \<noteq> DecTagIgnored) syncTags
              in if length ts > 0 then Inr (dm\<lparr>tags := Some ts\<rparr>) else Inr dm)))"

text \<open>\<open>defaultDecMode\<close>: the mode of \<open>DecOptions{}\<close>, all fields zero.\<close>

definition zeroDecOptions :: DecOptions where
  "zeroDecOptions = \<lparr> DupMapKey = 0, TimeTag = DecTagIgnored, MaxNestedLevels = 0,
     MaxArrayElements = 0, MaxMapPairs = 0, IndefLength = 0, TagsMd = 0, IntDec = 0,
     MapKeyByteString = 0, ExtraReturnErrors = 0, DefaultMapType = None \<rparr>"

definition defaultDecMode :: decMode where
  "defaultDecMode = \<lparr> tags = None, dupMapKey = 0, timeTag = DecTagIgnored,
     maxNestedLevels = 32, maxArrayElements = 131072, maxMapPairs = 131072, indefLength = 0,
     tagsMd = 0, intDec = 0, mapKeyByteString = 0, extraReturnErrors = 0,
     defaultMapType = None \<rparr>"

definition getRegisteredTagItem :: "decMode \<Rightarrow> gotype \<Rightarrow> tagItem option" where
  "getRegisteredTagItem dm vt =
     (case tags dm of Some ts \<Rightarrow> getTagItemFromType ts vt | None \<Rightarrow> None)"

section \<open>Filling a value\<close>

definition maxInt64 :: uint64 where
  "maxInt64 = 0x7fffffffffffffff"

text \<open>\<open>reflect.Value.OverflowInt\<close>, \<open>OverflowUint\<close> and \<open>OverflowFloat\<close>.\<close>

definition overflowInt :: "gotype \<Rightarrow> int \<Rightarrow> bool" where
  "overflowInt ty x =
     (case ty of
        TInt sz \<Rightarrow> \<not> (- (2 ^ (bitSize sz - 1)) \<le> x \<and> x < 2 ^ (bitSize sz - 1))
      | _ \<Rightarrow> False)"

definition overflowUint :: "gotype \<Rightarrow> uint64 \<Rightarrow> bool" where
  "overflowUint ty x = (case ty of TUint sz \<Rightarrow> \<not> unat x < 2 ^ bitSize sz | _ \<Rightarrow> False)"

definition overflowFloat :: "lib \<Rightarrow> gotype \<Rightarrow> gofloat \<Rightarrow> bool" where
  "overflowFloat L ty f = (ty = TFloat32 \<and> overflowFloat32 L f)"

fun fillNil :: "cborType \<Rightarrow> rvalue \<Rightarrow> result" where
  "fillNil t (ty, v) =
     (if kindOf ty = KSlice \<or> kindOf ty = KMap \<or> kindOf ty = KInterface \<or> kindOf ty = KPtr
      then (None, zero ty)
      else (None, v))"

fun fillPositiveInt :: "cborType \<Rightarrow> uint64 \<Rightarrow> rvalue \<Rightarrow> result" where
  "fillPositiveInt t val (ty, v) =
     (case kindOf ty of
        KInt \<Rightarrow>
          if val > maxInt64
          then (Some (UnmarshalTypeError t ty None (MsgOverflows (uint val) ty)), v)
          else if overflowInt ty (sint val)
          then (Some (UnmarshalTypeError t ty None (MsgOverflows (uint val) ty)), v)
          else (None, VInt (sint val))
      | KUint \<Rightarrow>
          if overflowUint ty val
          then (Some (UnmarshalTypeError t ty None (MsgOverflows (uint val) ty)), v)
          else (None, VUint (unat val))
      | KFloat \<Rightarrow> (None, VFloat (FloatOfUint val))
      | _ \<Rightarrow>
          if ty = TBigInt then (None, VBigInt (uint val))
          else (Some (UnmarshalTypeError t ty None NoMsg), v))"

fun fillNegativeInt :: "cborType \<Rightarrow> int \<Rightarrow> rvalue \<Rightarrow> result" where
  "fillNegativeInt t val (ty, v) =
     (case kindOf ty of
        KInt \<Rightarrow>
          if overflowInt ty val
          then (Some (UnmarshalTypeError t ty None (MsgOverflows val ty)), v)
          else (None, VInt val)
      | KFloat \<Rightarrow> (None, VFloat (FloatOfInt val))
      | _ \<Rightarrow>
          if ty = TBigInt then (None, VBigInt val)
          else (Some (UnmarshalTypeError t ty None NoMsg), v))"

fun fillBool :: "cborType \<Rightarrow> bool \<Rightarrow> rvalue \<Rightarrow> result" where
  "fillBool t val (ty, v) =
     (if kindOf ty = KBool then (None, VBool val)
      else (Some (UnmarshalTypeError t ty None NoMsg), v))"

fun fillFloat :: "lib \<Rightarrow> cborType \<Rightarrow> gofloat \<Rightarrow> rvalue \<Rightarrow> result" where
  "fillFloat L t val (ty, v) =
     (if kindOf ty = KFloat then
        (if overflowFloat L ty val
         then (Some (UnmarshalTypeError t ty None (MsgFloatOverflows val ty)), v)
         else (None, VFloat val))
      else (Some (UnmarshalTypeError t ty None NoMsg), v))"

text \<open>A \<open>[]byte\<close> as a value: the bytes are its backing elements, all of them in use.\<close>

definition byteSlice :: "byte list \<Rightarrow> goval" where
  "byteSlice val = VSlice (Some (map (\<lambda>b. VUint (unat b)) val, length val))"

fun fillByteString :: "cborType \<Rightarrow> byte list \<Rightarrow> rvalue \<Rightarrow> result" where
  "fillByteString t val (ty, v) =
     (case ty of
        TSlice (TUint Sz8) \<Rightarrow> (None, byteSlice val)
      | TArray vLen (TUint Sz8) \<Rightarrow>
          (None, VArray (map (\<lambda>b. VUint (unat b)) (take vLen val)
                         @ replicate (vLen - length val) (VUint 0)))
      | _ \<Rightarrow> (Some (UnmarshalTypeError t ty None NoMsg), v))"

fun fillTextString :: "cborType \<Rightarrow> string \<Rightarrow> rvalue \<Rightarrow> result" where
  "fillTextString t val (ty, v) =
     (if kindOf ty = KString then (None, VString val)
      else (Some (UnmarshalTypeError t ty None NoMsg), v))"

text \<open>\<open>isImmutableKind\<close> and \<open>isHashableValue\<close>.  An interface value holding nil gives the
  invalid \<open>reflect.Value\<close>, whose kind is none of those tested.\<close>

definition isImmutableKind :: "kind \<Rightarrow> bool" where
  "isImmutableKind k = (k = KBool \<or> k = KInt \<or> k = KUint \<or> k = KFloat \<or> k = KString)"

fun isHashableValue :: "gotype \<Rightarrow> goval \<Rightarrow> bool" where
  "isHashableValue t (VTag n (Some (t', v'))) =
     (if kindOf t = KSlice \<or> kindOf t = KMap then False
      else if t = TTag then isHashableValue t' v'
      else if t = TBigInt then False
      else True)"
| "isHashableValue t v =
     (if kindOf t = KSlice \<or> kindOf t = KMap then False
      else if t = TBigInt then False
      else True)"

definition isHashableAny :: "any \<Rightarrow> bool" where
  "isHashableAny rv = (case rv of None \<Rightarrow> True | Some (t, v) \<Rightarrow> isHashableValue t v)"

text \<open>\<open>validBuiltinTag\<close>, on the tag number and the first byte of the tag content.\<close>

definition validBuiltinTag :: "uint64 \<Rightarrow> byte \<Rightarrow> error option" where
  "validBuiltinTag tagNum contentHead =
     (let t = cborTypeOf contentHead in
      if tagNum = 0 then
        (if t \<noteq> cborTypeTextString then Some (ErrBuiltinTag tagNum t) else None)
      else if tagNum = 1 then
        (if t \<noteq> cborTypePositiveInt \<and> t \<noteq> cborTypeNegativeInt
            \<and> (contentHead < 0xf9 \<or> contentHead > 0xfb)
         then Some (ErrBuiltinTag tagNum t) else None)
      else if tagNum = 2 \<or> tagNum = 3 then
        (if t \<noteq> cborTypeByteString then Some (ErrBuiltinTag tagNum t) else None)
      else None)"

text \<open>The check \<open>if d.nextCBORType() == cborTypeTag { ... validBuiltinTag ... }\<close> that
  \<open>parseToValue\<close> and \<open>parse\<close> both make.\<close>

definition checkBuiltinTag :: "item \<Rightarrow> error option" where
  "checkBuiltinTag it =
     (case it of ITag tagNum c \<Rightarrow> validBuiltinTag tagNum (headByte c) | _ \<Rightarrow> None)"

subsection \<open>Strings\<close>

text \<open>
  \<open>parseByteString\<close> joins the chunks.  It is called where the item is a byte string (in
  the byte-string case of a switch, or on the content of tag 2 or 3, which
  \<open>validBuiltinTag\<close> has checked to be one).
\<close>

fun parseByteString :: "item \<Rightarrow> byte list" where
  "parseByteString (IBytes _ chunks) = concat chunks"
| "parseByteString _ = []"

text \<open>\<open>parseTextString\<close>: a string of definite length is checked as a whole, one of
  indefinite length chunk by chunk.\<close>

definition parseTextString :: "lib \<Rightarrow> bool \<Rightarrow> string list \<Rightarrow> error + string" where
  "parseTextString L hasSize chunks =
     (if hasSize then
        (if \<not> utf8Valid L (concat chunks) then Inl (SemanticError ''cbor: invalid UTF-8 string'')
         else Inr (concat chunks))
      else
        (if \<not> list_all (utf8Valid L) chunks
         then Inl (SemanticError ''cbor: invalid UTF-8 string'')
         else Inr (concat chunks)))"

text \<open>\<open>big.Int.SetBytes\<close>, and the conversion between the bytes of a byte string and a
  Go string.\<close>

definition bigIntOfBytes :: "byte list \<Rightarrow> int" where
  "bigIntOfBytes bs = foldl (\<lambda>acc b. acc * 256 + uint b) 0 bs"

definition stringOfBytes :: "byte list \<Rightarrow> string" where
  "stringOfBytes bs = map (\<lambda>b. char_of (unat b)) bs"

definition bytesOfSlice :: "goval \<Rightarrow> byte list" where
  "bytesOfSlice v =
     (case v of
        VSlice (Some (elems, n)) \<Rightarrow>
          map (\<lambda>e. case e of VUint k \<Rightarrow> of_nat k | _ \<Rightarrow> 0) (take n elems)
      | _ \<Rightarrow> [])"

subsection \<open>Pointers, maps, struct fields\<close>

text \<open>
  The loop \<open>for v.Kind() == reflect.Ptr { if v.IsNil() { v.Set(reflect.New(...)) }; v = v.Elem() }\<close>:
  the number of pointers passed and the value reached, every nil pointer on the way being
  set to a new zero value; and the way back, which puts the changed value under the same
  pointers.
\<close>

fun derefPtrs :: "gotype \<Rightarrow> goval \<Rightarrow> nat \<times> gotype \<times> goval" where
  "derefPtrs (TPtr t) v =
     (case derefPtrs t (case v of VPtr (Some x) \<Rightarrow> x | _ \<Rightarrow> zero t) of
        (n, r) \<Rightarrow> (Suc n, r))"
| "derefPtrs t v = (0, t, v)"

fun underPtrs :: "nat \<Rightarrow> goval \<Rightarrow> goval" where
  "underPtrs 0 v = v"
| "underPtrs (Suc n) v = VPtr (Some (underPtrs n v))"

text \<open>\<open>reflect.Value.SetMapIndex\<close>, with the \<open>==\<close> of the keys: the entry of an equal key
  gets the new element, otherwise an entry is added.  (Where equal keys can differ, as
  with floats, the runtime stores the new key too.)  And \<open>Interface()\<close>.\<close>

fun setMapIndex ::
  "('k \<Rightarrow> 'k \<Rightarrow> bool) \<Rightarrow> 'k \<Rightarrow> 'v \<Rightarrow> ('k \<times> 'v) list \<Rightarrow> ('k \<times> 'v) list" where
  "setMapIndex eq k e [] = [(k, e)]"
| "setMapIndex eq k e (p # ps) =
     (if eq (fst p) k then (k, e) # ps else p # setMapIndex eq k e ps)"

text \<open>The sets of keys that \<open>parseMapToMap\<close> (\<open>existingKeys\<close>) and \<open>parseMapToStruct\<close>
  (\<open>mapKeys\<close>) keep in a Go map with keys of type \<open>any\<close>: \<open>==\<close> on two interface values,
  \<open>mapKeys[k] = struct{}{}\<close>, \<open>existingKeys[k]\<close> and \<open>delete(existingKeys, k)\<close>.\<close>

definition anyEq :: "lib \<Rightarrow> any \<Rightarrow> any \<Rightarrow> bool" where
  "anyEq L a b = valEq L (VIface a) (VIface b)"

definition hasKey :: "lib \<Rightarrow> any \<Rightarrow> any list \<Rightarrow> bool" where
  "hasKey L k ks = list_ex (\<lambda>k'. anyEq L k' k) ks"

definition insertKey :: "lib \<Rightarrow> any \<Rightarrow> any list \<Rightarrow> any list" where
  "insertKey L k ks = (if hasKey L k ks then ks else k # ks)"

definition deleteKey :: "lib \<Rightarrow> any \<Rightarrow> any list \<Rightarrow> any list" where
  "deleteKey L k ks = filter (\<lambda>k'. \<not> anyEq L k' k) ks"

definition interfaceOf :: "gotype \<Rightarrow> goval \<Rightarrow> any" where
  "interfaceOf ty v = (case v of VIface x \<Rightarrow> (if ty = TIface then x else Some (ty, v))
                       | _ \<Rightarrow> Some (ty, v))"

text \<open>\<open>v.Field(i)\<close> and the assignment through it; \<open>None\<close> is reflect's panic on an index
  out of range.\<close>

definition getField :: "goval \<Rightarrow> nat \<Rightarrow> goval option" where
  "getField v i = (case v of VStruct fs \<Rightarrow> (if i < length fs then Some (fs ! i) else None)
                   | _ \<Rightarrow> None)"

definition setField :: "goval \<Rightarrow> nat \<Rightarrow> goval \<Rightarrow> goval" where
  "setField v i x = (case v of VStruct fs \<Rightarrow> VStruct (fs[i := x]) | _ \<Rightarrow> v)"

text \<open>\<open>typeError.StructFieldName = ... + "." + f.name\<close> on an \<open>*UnmarshalTypeError\<close>; other
  errors are passed on as they are.\<close>

fun withStructFieldName :: "gotype \<Rightarrow> string \<Rightarrow> error \<Rightarrow> error" where
  "withStructFieldName ty name (UnmarshalTypeError c g _ m) =
     UnmarshalTypeError c g (Some (ty, name)) m"
| "withStructFieldName ty name e = e"

text \<open>The three loops of \<open>parseMapToStruct\<close> that look for a field: the first field, in
  the order of \<open>structType.fields\<close>, that is not yet found and meets the condition.\<close>

fun findField :: "('t fld \<Rightarrow> bool) \<Rightarrow> 't fld list \<Rightarrow> bool list \<Rightarrow> nat \<Rightarrow> nat option" where
  "findField cond (fld # flds) (found # founds) i =
     (if \<not> found \<and> cond fld then Some i else findField cond flds founds (Suc i))"
| "findField cond _ _ i = None"


section \<open>The parsing functions\<close>

text \<open>The part of \<open>parseToTime\<close> after \<open>content, err = d.parse(false)\<close>: the type switch
  on the content.  \<open>t\<close> is the CBOR type the function has in its variable \<open>t\<close> then.\<close>

definition timeOfContent :: "lib \<Rightarrow> cborType \<Rightarrow> any \<times> error option \<Rightarrow> gotime \<times> error option" where
  "timeOfContent L t r =
     (case r of
        (content, Some e) \<Rightarrow> (TimeZero, Some e)
      | (None, None) \<Rightarrow> (TimeZero, None)
      | (Some (TUint Sz64, VUint c), None) \<Rightarrow> (TimeUnix (sint (of_nat c :: uint64)) 0, None)
      | (Some (TInt Sz64, VInt c), None) \<Rightarrow> (TimeUnix c 0, None)
      | (Some (TFloat64, VFloat c), None) \<Rightarrow>
          (if isNaNOrInf L c then (TimeZero, None) else (TimeUnixFloat c, None))
      | (Some (TString, VString c), None) \<Rightarrow>
          (if timeParse L c then (TimeRFC3339 c, None) else (TimeZero, Some (ErrTimeParse c)))
      | (Some _, None) \<Rightarrow> (TimeZero, Some (UnmarshalTypeError t TTime None NoMsg)))"

text \<open>\<open>parseToUnmarshaler\<close>: the method \<open>UnmarshalCBOR\<close> is on the pointer to the type, so
  the value itself or a pointer to it can be asserted as \<open>Unmarshaler\<close>, a pointer to a
  pointer cannot.\<close>

fun parseToUnmarshaler :: "lib \<Rightarrow> item \<Rightarrow> rvalue \<Rightarrow> result" where
  "parseToUnmarshaler L it (ty, v) =
     (if nextCBORNil it \<and> kindOf ty = KPtr \<and> v = VPtr None then (None, v)
      else case ty of
        TUnmarshaler name \<Rightarrow> unmarshalCBOR L name it v
      | TPtr (TUnmarshaler name) \<Rightarrow>
          (case v of
             VPtr (Some x) \<Rightarrow> (case unmarshalCBOR L name it x of (e, x') \<Rightarrow> (e, VPtr (Some x')))
           | _ \<Rightarrow> (Some (Panic ''nil pointer dereference''), v))
      | _ \<Rightarrow> (Some (ErrAssertUnmarshaler ty), v))"

text \<open>The check of the registered tag numbers in \<open>parseToValue\<close>, with
  \<open>validRegisteredTagNums\<close>: an error, or the item the offset stands at afterwards (the
  tag content when the tag numbers were read and matched).\<close>

definition validRegisteredTagNums :: "tagItem \<Rightarrow> item \<Rightarrow> error option" where
  "validRegisteredTagNums registeredTag it =
     (if \<not> equalTagNum registeredTag (tagNumsOf it)
      then Some (WrongTagError (contentType registeredTag) (num registeredTag) (tagNumsOf it))
      else None)"

definition checkRegisteredTag :: "decMode \<Rightarrow> item \<Rightarrow> gotype \<Rightarrow> error + item" where
  "checkRegisteredTag dm it tInfo =
     (case getRegisteredTagItem dm (nonPtrType tInfo) of
        None \<Rightarrow> Inr it
      | Some tagItem \<Rightarrow>
          if nextCBORType it \<noteq> cborTypeTag then
            (if decTag tagItem = DecTagRequired
             then Inl (UnmarshalTypeError (nextCBORType it) tInfo None MsgExpectTag)
             else Inr it)
          else (case validRegisteredTagNums tagItem it of
                  Some e \<Rightarrow> Inl e
                | None \<Rightarrow> Inr (stripTags it)))"

text \<open>The type registered for the tag numbers at the offset, which \<open>parse\<close> looks up when
  the mode has tags.\<close>

definition registeredTypeAt :: "decMode \<Rightarrow> item \<Rightarrow> gotype option" where
  "registeredTypeAt dm it =
     (case tags dm of None \<Rightarrow> None | Some ts \<Rightarrow> getTypeFromTagNum ts (tagNumsOf it))"

text \<open>Pieces of the loops that do not decode anything themselves.\<close>

definition wrapByteString :: "decMode \<Rightarrow> any \<Rightarrow> any" where
  "wrapByteString dm k =
     (case k of
        Some (TSlice (TUint Sz8), v) \<Rightarrow>
          if mapKeyByteString dm = MapKeyByteStringWrap
          then Some (TByteString, VString (stringOfBytes (bytesOfSlice v)))
          else k
      | _ \<Rightarrow> k)"

definition typeOfAny :: "any \<Rightarrow> gotype" where
  "typeOfAny k = (case k of Some (t, v) \<Rightarrow> t | None \<Rightarrow> TIface)"

text \<open>\<open>if v.IsNil() || v.Cap() < count || count == 0 { v.Set(reflect.MakeSlice(...)) }\<close>: the
  backing elements the slice has afterwards.\<close>

definition sliceBacking :: "nat \<Rightarrow> gotype \<Rightarrow> goval \<Rightarrow> goval list" where
  "sliceBacking count et v =
     (case v of
        VSlice (Some (elems, n)) \<Rightarrow>
          if length elems < count \<or> count = 0 then replicate count (zero et) else elems
      | _ \<Rightarrow> replicate count (zero et))"

definition arrayElems :: "goval \<Rightarrow> goval list" where
  "arrayElems v = (case v of VArray elems \<Rightarrow> elems | _ \<Rightarrow> [])"

definition mapEntries :: "goval \<Rightarrow> (goval \<times> goval) list" where
  "mapEntries v = (case v of VMap (Some m) \<Rightarrow> m | _ \<Rightarrow> [])"

text \<open>The key and element variables of \<open>parseMapToMap\<close> are made once and, for the
  immutable kinds, not reset between entries.\<close>

definition reusedValue :: "gotype \<Rightarrow> goval option \<Rightarrow> goval" where
  "reusedValue ty old =
     (case old of
        None \<Rightarrow> zero ty
      | Some x \<Rightarrow> if isImmutableKind (kindOf ty) then x else zero ty)"

definition wrapKeyValue :: "decMode \<Rightarrow> gotype \<Rightarrow> goval \<Rightarrow> goval" where
  "wrapKeyValue dm kt kv =
     (case kv of
        VIface (Some (TSlice (TUint Sz8), b)) \<Rightarrow>
          if kt = TIface \<and> mapKeyByteString dm = MapKeyByteStringWrap
          then VIface (Some (TByteString, VString (stringOfBytes (bytesOfSlice b))))
          else kv
      | _ \<Rightarrow> kv)"

definition unhashableKey :: "gotype \<Rightarrow> goval \<Rightarrow> gotype option" where
  "unhashableKey kt kv =
     (case kv of
        VIface (Some (t, x)) \<Rightarrow> if kt = TIface \<and> \<not> isHashableValue t x then Some t else None
      | _ \<Rightarrow> None)"

definition errOnUnknownField :: "decMode \<Rightarrow> bool" where
  "errOnUnknownField dm = ((extraReturnErrors dm AND ExtraDecErrorUnknownField) > 0)"

text \<open>The two passes over the fields for a text key: exact name first, then
  \<open>strings.EqualFold\<close>; both skip the fields found earlier and compare the lengths.\<close>

definition matchTextKey :: "lib \<Rightarrow> 't fld list \<Rightarrow> bool list \<Rightarrow> string \<Rightarrow> nat option" where
  "matchTextKey L flds foundFldIdx keyBytes =
     (case findField (\<lambda>fld. length (fname fld) = length keyBytes \<and> fname fld = keyBytes)
             flds foundFldIdx 0 of
        Some i \<Rightarrow> Some i
      | None \<Rightarrow>
          findField (\<lambda>fld. length (fname fld) = length keyBytes \<and> equalFold L (fname fld) keyBytes)
            flds foundFldIdx 0)"

definition matchIntKey :: "'t fld list \<Rightarrow> bool list \<Rightarrow> int \<Rightarrow> nat option" where
  "matchIntKey flds foundFldIdx n =
     findField (\<lambda>fld. keyAsInt fld \<and> nameAsInt fld = n) flds foundFldIdx 0"

definition markFound :: "bool list \<Rightarrow> nat option \<Rightarrow> bool list" where
  "markFound foundFldIdx f = (case f of Some i \<Rightarrow> foundFldIdx[i := True] | None \<Rightarrow> foundFldIdx)"

definition fieldAt :: "'t fld list \<Rightarrow> nat option \<Rightarrow> 't fld option" where
  "fieldAt flds f = (case f of Some i \<Rightarrow> (if i < length flds then Some (flds ! i) else None)
                     | None \<Rightarrow> None)"

text \<open>
  The measure that shows the recursion of the parsing functions to end: the size of the
  item, or of the items left in a loop, and a rank among the functions that work on the
  same item.  Decoding into an interface or a \<open>time.Time\<close> goes through \<open>parse\<close> on the
  same item, so these rank above it.
\<close>

definition valueRank :: "gotype \<Rightarrow> nat" where
  "valueRank tInfo =
     (if spclType tInfo = specialTypeEmptyIface \<or> spclType tInfo = specialTypeTime then 6 else 0)"

definition decodeMeasure where
  "decodeMeasure = (case_sum
      (case_sum
       (case_sum
        (case_sum
         (\<lambda>(L, dm, s, it). 16 * size it + 5)
         (\<lambda>(L, dm, it). 16 * size it + 4))
        (case_sum
         (\<lambda>(L, dm, it). 16 * size it + (if nextCBORType it = cborTypeTag then 0 else 6))
         (case_sum
          (\<lambda>(L, dm, it, v). 16 * size it)
          (\<lambda>(L, dm, xs). 16 * size_list size xs + 1))))
       (case_sum
        (case_sum
         (\<lambda>(L, dm, xs, r). 16 * size_list size xs)
         (case_sum
          (\<lambda>(L, dm, kvs). 16 * size_list (size_prod size size) kvs + 1)
          (\<lambda>(L, dm, kvs, r). 16 * size_list (size_prod size size) kvs)))
        (case_sum
         (\<lambda>(L, dm, it, v, tInfo). 16 * size it + valueRank tInfo + 3)
         (case_sum
          (\<lambda>(L, dm, it, v, tInfo). 16 * size it + valueRank tInfo + 2)
          (\<lambda>(L, dm, it, v, tInfo). 16 * size it + valueRank tInfo + 1)))))
      (case_sum
       (case_sum
        (case_sum
         (\<lambda>(L, dm, xs, r). 16 * size_list size xs + 1)
         (\<lambda>(L, dm, xs, r). 16 * size_list size xs))
        (case_sum
         (\<lambda>(L, dm, xs, r). 16 * size_list size xs + 1)
         (case_sum
          (\<lambda>(L, dm, xs, r). 16 * size_list size xs)
          (\<lambda>(L, dm, xs, r). 16 * size_list size xs + 1))))
       (case_sum
        (case_sum
         (\<lambda>(L, dm, xs, r). 16 * size_list size xs)
         (case_sum
          (\<lambda>(L, dm, kvs, r). 16 * size_list (size_prod size size) kvs + 1)
          (\<lambda>(L, dm, kvs, r). 16 * size_list (size_prod size size) kvs)))
        (case_sum
         (\<lambda>(L, dm, kvs, r). 16 * size_list (size_prod size size) kvs + 1)
         (case_sum
          (\<lambda>(L, dm, kvs, r). 16 * size_list (size_prod size size) kvs)
          (\<lambda>(L, dm, valItem, rest, r). 16 * (size valItem + size_list (size_prod size size) rest) + 16))))))"

text \<open>
  The functions of decode.go that call each other, in one recursive definition.  A Go
  loop over the elements of an array or map is the function with the suffix \<open>_loop\<close>,
  called on the elements that are left with the loop variables as arguments.
  \<open>parseToValue\<close> is in three parts: making the values nil pointers point to, stripping
  the self-described tag numbers (\<open>parseToValue_tags\<close>), and the rest
  (\<open>parseToValue_item\<close>); likewise \<open>parse\<close> and \<open>parse_item\<close>.  In \<open>parseMapToStruct\<close> the
  part of the loop body after the switch on the key type is \<open>parseMapToStruct_value\<close>.
  A function that fills a value returns the error and the value as it is afterwards.
\<close>

function (sequential)
  parse :: "lib \<Rightarrow> decMode \<Rightarrow> bool \<Rightarrow> item \<Rightarrow> any \<times> error option" and
  parse_item :: "lib \<Rightarrow> decMode \<Rightarrow> item \<Rightarrow> any \<times> error option" and
  parseToTime :: "lib \<Rightarrow> decMode \<Rightarrow> item \<Rightarrow> gotime \<times> error option" and
  parseToTag :: "lib \<Rightarrow> decMode \<Rightarrow> item \<Rightarrow> rvalue \<Rightarrow> result" and
  parseArray :: "lib \<Rightarrow> decMode \<Rightarrow> item list \<Rightarrow> any \<times> error option" and
  parseArray_loop ::
    "lib \<Rightarrow> decMode \<Rightarrow> item list \<Rightarrow> nat \<Rightarrow> goval list \<Rightarrow> error option
      \<Rightarrow> goval list \<times> error option" and
  parseMap :: "lib \<Rightarrow> decMode \<Rightarrow> (item \<times> item) list \<Rightarrow> any \<times> error option" and
  parseMap_loop ::
    "lib \<Rightarrow> decMode \<Rightarrow> (item \<times> item) list \<Rightarrow> nat \<Rightarrow> (goval \<times> goval) list \<Rightarrow> error option
      \<Rightarrow> nat \<Rightarrow> (goval \<times> goval) list \<times> error option" and
  parseToValue :: "lib \<Rightarrow> decMode \<Rightarrow> item \<Rightarrow> rvalue \<Rightarrow> gotype \<Rightarrow> result" and
  parseToValue_tags :: "lib \<Rightarrow> decMode \<Rightarrow> item \<Rightarrow> rvalue \<Rightarrow> gotype \<Rightarrow> result" and
  parseToValue_item :: "lib \<Rightarrow> decMode \<Rightarrow> item \<Rightarrow> rvalue \<Rightarrow> gotype \<Rightarrow> result" and
  parseArrayToSlice :: "lib \<Rightarrow> decMode \<Rightarrow> item list \<Rightarrow> rvalue \<Rightarrow> gotype \<Rightarrow> result" and
  parseArrayToSlice_loop ::
    "lib \<Rightarrow> decMode \<Rightarrow> item list \<Rightarrow> nat \<Rightarrow> gotype \<Rightarrow> gotype \<Rightarrow> goval list \<Rightarrow> error option
      \<Rightarrow> error option \<times> goval list" and
  parseArrayToArray :: "lib \<Rightarrow> decMode \<Rightarrow> item list \<Rightarrow> rvalue \<Rightarrow> gotype \<Rightarrow> result" and
  parseArrayToArray_loop ::
    "lib \<Rightarrow> decMode \<Rightarrow> item list \<Rightarrow> nat \<Rightarrow> gotype \<Rightarrow> gotype \<Rightarrow> goval list \<Rightarrow> error option
      \<Rightarrow> error option \<times> nat \<times> goval list" and
  parseArrayToStruct :: "lib \<Rightarrow> decMode \<Rightarrow> item list \<Rightarrow> rvalue \<Rightarrow> gotype \<Rightarrow> result" and
  parseArrayToStruct_loop ::
    "lib \<Rightarrow> decMode \<Rightarrow> item list \<Rightarrow> nat \<Rightarrow> gotype fld list \<Rightarrow> gotype \<Rightarrow> goval
      \<Rightarrow> error option \<Rightarrow> result" and
  parseMapToMap :: "lib \<Rightarrow> decMode \<Rightarrow> (item \<times> item) list \<Rightarrow> rvalue \<Rightarrow> gotype \<Rightarrow> result" and
  parseMapToMap_loop ::
    "lib \<Rightarrow> decMode \<Rightarrow> (item \<times> item) list \<Rightarrow> nat \<Rightarrow> gotype \<Rightarrow> gotype
      \<Rightarrow> (goval \<times> goval) list \<Rightarrow> error option \<Rightarrow> nat \<Rightarrow> any list
      \<Rightarrow> goval option \<Rightarrow> goval option \<Rightarrow> error option \<times> (goval \<times> goval) list" and
  parseMapToStruct :: "lib \<Rightarrow> decMode \<Rightarrow> (item \<times> item) list \<Rightarrow> rvalue \<Rightarrow> gotype \<Rightarrow> result" and
  parseMapToStruct_loop ::
    "lib \<Rightarrow> decMode \<Rightarrow> (item \<times> item) list \<Rightarrow> nat \<Rightarrow> gotype \<Rightarrow> goval \<Rightarrow> error option
      \<Rightarrow> bool list \<Rightarrow> any list \<Rightarrow> nat \<Rightarrow> result" and
  parseMapToStruct_value ::
    "lib \<Rightarrow> decMode \<Rightarrow> item \<Rightarrow> (item \<times> item) list \<Rightarrow> nat \<Rightarrow> gotype \<Rightarrow> goval \<Rightarrow> error option
      \<Rightarrow> gotype fld option \<Rightarrow> bool list \<Rightarrow> any \<Rightarrow> any list \<Rightarrow> nat \<Rightarrow> result"
where
  "parse L dm skipSelfDescribedTag it =
     (case it of
        ITag tagNum c \<Rightarrow>
          if skipSelfDescribedTag \<and> tagNum = selfDescribedCBORTagNum
          then parse L dm skipSelfDescribedTag c
          else parse_item L dm it
      | _ \<Rightarrow> parse_item L dm it)"

| "parse_item L dm it =
     (case checkBuiltinTag it of
        Some e \<Rightarrow> (None, Some e)
      | None \<Rightarrow>
         (case it of
            IUint val \<Rightarrow>
              if intDec dm = IntDecConvertNone then (Some (TUint Sz64, VUint (unat val)), None)
              else if val > maxInt64
              then (None, Some (UnmarshalTypeError cborTypePositiveInt (TInt Sz64) None
                                  (MsgOverflowsInt64 (uint val))))
              else (Some (TInt Sz64, VInt (sint val)), None)
          | INint val \<Rightarrow>
              if val > maxInt64 then (Some (TBigInt, VBigInt (- (uint val + 1))), None)
              else (Some (TInt Sz64, VInt (sint ((- 1) XOR val))), None)
          | IBytes hasSize chunks \<Rightarrow>
              (Some (TSlice (TUint Sz8), byteSlice (parseByteString it)), None)
          | IText hasSize chunks \<Rightarrow>
              (case parseTextString L hasSize chunks of
                 Inl e \<Rightarrow> (None, Some e)
               | Inr b \<Rightarrow> (Some (TString, VString b), None))
          | ITag tagNum c \<Rightarrow>
              if tagNum = 0 \<or> tagNum = 1 then
                (case parseToTime L dm it of (tm, e) \<Rightarrow> (Some (TTime, VTime tm), e))
              else if tagNum = 2 then
                (Some (TBigInt, VBigInt (bigIntOfBytes (parseByteString c))), None)
              else if tagNum = 3 then
                (Some (TBigInt, VBigInt (- (bigIntOfBytes (parseByteString c) + 1))), None)
              else
                (case registeredTypeAt dm it of
                   Some registeredType \<Rightarrow>
                     (case parseToValue L dm it (registeredType, zero registeredType)
                             registeredType of
                        (Some e, rv) \<Rightarrow> (None, Some e)
                      | (None, rv) \<Rightarrow> (Some (registeredType, rv), None))
                 | None \<Rightarrow>
                     (case parse L dm False c of
                        (content, Some e) \<Rightarrow> (None, Some e)
                      | (content, None) \<Rightarrow> (Some (TTag, VTag tagNum content), None)))
          | IPrim ai val \<Rightarrow>
              if ai < 20 \<or> ai = 24 then (Some (TUint Sz64, VUint (unat val)), None)
              else if ai = 20 \<or> ai = 21 then (Some (TBool, VBool (ai = 21)), None)
              else if ai = 22 \<or> ai = 23 then (None, None)
              else if ai = 25 then (Some (TFloat64, VFloat (Float16frombits (ucast val))), None)
              else if ai = 26 then (Some (TFloat64, VFloat (Float32frombits (ucast val))), None)
              else if ai = 27 then (Some (TFloat64, VFloat (Float64frombits val)), None)
              else (None, None)
          | IArray hasSize xs \<Rightarrow> parseArray L dm xs
          | IMap hasSize kvs \<Rightarrow>
              (case defaultMapType dm of
                 Some (kt, et) \<Rightarrow>
                   (case parseToValue L dm it (TPtr (TMap kt et), VPtr (Some (zero (TMap kt et))))
                           (TMap kt et) of
                      (Some e, m) \<Rightarrow> (None, Some e)
                    | (None, VPtr (Some x)) \<Rightarrow> (Some (TMap kt et, x), None)
                    | (None, _) \<Rightarrow> (None, Some (Panic ''reflect: call of Interface on zero Value'')))
               | None \<Rightarrow> parseMap L dm kvs)))"

| "parseToTime L dm it =
     (case it of
        ITag tagNum c \<Rightarrow>
          if timeTag dm = DecTagIgnored
          then timeOfContent L (nextCBORType (stripTags c)) (parse L dm False (stripTags c))
          else if tagNum \<noteq> 0 \<and> tagNum \<noteq> 1 then (TimeZero, Some (ErrTimeTagNumber tagNum))
          else timeOfContent L cborTypeTag (parse L dm False c)
      | _ \<Rightarrow>
          if timeTag dm = DecTagRequired
          then (TimeZero, Some (UnmarshalTypeError (nextCBORType it) TTime None MsgExpectTag))
          else timeOfContent L (nextCBORType it) (parse L dm False it))"

| "parseToTag L dm it (ty, v) =
     (if nextCBORNil it then (None, v)
      else case it of
        ITag tagNum c \<Rightarrow>
          (case parse L dm False c of
             (content, Some e) \<Rightarrow> (Some e, v)
           | (content, None) \<Rightarrow> (None, VTag tagNum content))
      | _ \<Rightarrow> (Some (UnmarshalTypeError (nextCBORType it) TTag None NoMsg), v))"

| "parseArray L dm xs =
     (case parseArray_loop L dm xs 0 (replicate (length xs) (VIface None)) None of
        (v, e) \<Rightarrow> (Some (TSlice TIface, VSlice (Some (v, length xs))), e))"

| "parseArray_loop L dm [] i v err = (v, err)"
| "parseArray_loop L dm (x # xs) i v err =
     (case parse L dm True x of
        (e, Some lastErr) \<Rightarrow> parseArray_loop L dm xs (Suc i) v (keepFirst err lastErr)
      | (e, None) \<Rightarrow> parseArray_loop L dm xs (Suc i) (v[i := VIface e]) err)"

| "parseMap L dm kvs =
     (case parseMap_loop L dm kvs 0 [] None 0 of
        (m, e) \<Rightarrow> (Some (TMap TIface TIface, VMap (Some m)), e))"

| "parseMap_loop L dm [] i m err keyCount = (m, err)"
| "parseMap_loop L dm ((keyItem, valItem) # rest) i m err keyCount =
     (case parse L dm True keyItem of
        (k0, Some lastErr) \<Rightarrow> parseMap_loop L dm rest (Suc i) m (keepFirst err lastErr) keyCount
      | (k0, None) \<Rightarrow>
          if \<not> isHashableAny (wrapByteString dm k0) then
            parseMap_loop L dm rest (Suc i) m
              (keepFirst err (ErrInvalidMapKeyType (typeOfAny (wrapByteString dm k0)))) keyCount
          else
            (case parse L dm True valItem of
               (e, Some lastErr) \<Rightarrow>
                 parseMap_loop L dm rest (Suc i) m (keepFirst err lastErr) keyCount
             | (e, None) \<Rightarrow>
                 if dupMapKey dm = DupMapKeyEnforcedAPF then
                   (if length (setMapIndex (valEq L) (VIface (wrapByteString dm k0)) (VIface e) m) = keyCount
                    then (setMapIndex (valEq L) (VIface (wrapByteString dm k0)) (VIface None)
                            (setMapIndex (valEq L) (VIface (wrapByteString dm k0)) (VIface e) m),
                          Some (DupMapKeyError (wrapByteString dm k0) i))
                    else parseMap_loop L dm rest (Suc i)
                           (setMapIndex (valEq L) (VIface (wrapByteString dm k0)) (VIface e) m) err
                           (length (setMapIndex (valEq L) (VIface (wrapByteString dm k0)) (VIface e) m)))
                 else parseMap_loop L dm rest (Suc i)
                        (setMapIndex (valEq L) (VIface (wrapByteString dm k0)) (VIface e) m) err keyCount))"

| "parseToValue L dm it (ty, v) tInfo =
     (if \<not> nextCBORNil it then
        (case derefPtrs ty v of
           (n, ty', v') \<Rightarrow>
             (case parseToValue_tags L dm it (ty', v') tInfo of (e, x) \<Rightarrow> (e, underPtrs n x)))
      else parseToValue_tags L dm it (ty, v) tInfo)"

| "parseToValue_tags L dm it (ty, v) tInfo =
     (case it of
        ITag tagNum c \<Rightarrow>
          if tagNum = selfDescribedCBORTagNum then parseToValue_tags L dm c (ty, v) tInfo
          else parseToValue_item L dm it (ty, v) tInfo
      | _ \<Rightarrow> parseToValue_item L dm it (ty, v) tInfo)"

| "parseToValue_item L dm it (ty, v) tInfo =
     (case checkBuiltinTag it of
        Some e \<Rightarrow> (Some e, v)
      | None \<Rightarrow>
         (case spclType tInfo of
            specialTypeEmptyIface \<Rightarrow>
              (case parse L dm False it of
                 (iv, e) \<Rightarrow> (e, if iv \<noteq> None then VIface iv else v))
          | specialTypeTag \<Rightarrow> parseToTag L dm it (ty, v)
          | specialTypeTime \<Rightarrow>
              if nextCBORNil it then (None, v)
              else (case parseToTime L dm it of
                      (tm, Some e) \<Rightarrow> (Some e, v)
                    | (tm, None) \<Rightarrow> (None, VTime tm))
          | specialTypeUnmarshalerIface \<Rightarrow> parseToUnmarshaler L it (ty, v)
          | specialTypeNone \<Rightarrow>
             (case checkRegisteredTag dm it tInfo of
                Inl e \<Rightarrow> (Some e, v)
              | Inr it' \<Rightarrow>
                 (case it' of
                    IUint val \<Rightarrow> fillPositiveInt cborTypePositiveInt val (ty, v)
                  | INint val \<Rightarrow>
                      if val > maxInt64 then
                        (if nonPtrType tInfo = TBigInt then (None, VBigInt (- (uint val + 1)))
                         else (Some (UnmarshalTypeError cborTypeNegativeInt (nonPtrType tInfo) None
                                       (MsgOverflowsInt64 (- (uint val + 1)))), v))
                      else fillNegativeInt cborTypeNegativeInt (sint ((- 1) XOR val)) (ty, v)
                  | IBytes hasSize chunks \<Rightarrow>
                      if ty = TByteString then
                        (case fillByteString cborTypeByteString (parseByteString it')
                                (TSlice (TUint Sz8), byteSlice []) of
                           (Some e, rb) \<Rightarrow> (Some e, v)
                         | (None, rb) \<Rightarrow> (None, VString (stringOfBytes (bytesOfSlice rb))))
                      else fillByteString cborTypeByteString (parseByteString it') (ty, v)
                  | IText hasSize chunks \<Rightarrow>
                      (case parseTextString L hasSize chunks of
                         Inl e \<Rightarrow> (Some e, v)
                       | Inr b \<Rightarrow> fillTextString cborTypeTextString b (ty, v))
                  | IPrim ai val \<Rightarrow>
                      if ai < 20 \<or> ai = 24 then fillPositiveInt cborTypePrimitives val (ty, v)
                      else if ai = 20 \<or> ai = 21 then fillBool cborTypePrimitives (ai = 21) (ty, v)
                      else if ai = 22 \<or> ai = 23 then fillNil cborTypePrimitives (ty, v)
                      else if ai = 25
                      then fillFloat L cborTypePrimitives (Float16frombits (ucast val)) (ty, v)
                      else if ai = 26
                      then fillFloat L cborTypePrimitives (Float32frombits (ucast val)) (ty, v)
                      else if ai = 27
                      then fillFloat L cborTypePrimitives (Float64frombits val) (ty, v)
                      else (None, v)
                  | ITag tagNum c \<Rightarrow>
                      if tagNum = 2 then
                        (if nonPtrType tInfo = TBigInt
                         then (None, VBigInt (bigIntOfBytes (parseByteString c)))
                         else if nonPtrKind tInfo = KSlice \<or> nonPtrKind tInfo = KArray
                         then fillByteString cborTypeTag (parseByteString c) (ty, v)
                         else if bigIntOfBytes (parseByteString c) < 2 ^ 64
                         then fillPositiveInt cborTypeTag
                                (word_of_int (bigIntOfBytes (parseByteString c))) (ty, v)
                         else (Some (UnmarshalTypeError cborTypeTag (nonPtrType tInfo) None
                                       (MsgOverflows (bigIntOfBytes (parseByteString c)) ty)), v))
                      else if tagNum = 3 then
                        (if nonPtrType tInfo = TBigInt
                         then (None, VBigInt (- (bigIntOfBytes (parseByteString c) + 1)))
                         else if nonPtrKind tInfo = KSlice \<or> nonPtrKind tInfo = KArray
                         then fillByteString cborTypeTag (parseByteString c) (ty, v)
                         else if - (2 ^ 63) \<le> - (bigIntOfBytes (parseByteString c) + 1)
                         then fillNegativeInt cborTypeTag
                                (- (bigIntOfBytes (parseByteString c) + 1)) (ty, v)
                         else (Some (UnmarshalTypeError cborTypeTag (nonPtrType tInfo) None
                                       (MsgOverflows (- (bigIntOfBytes (parseByteString c) + 1)) ty)),
                               v))
                      else parseToValue L dm c (ty, v) tInfo
                  | IArray hasSize xs \<Rightarrow>
                      (case nonPtrKind tInfo of
                         KSlice \<Rightarrow> parseArrayToSlice L dm xs (ty, v) tInfo
                       | KArray \<Rightarrow> parseArrayToArray L dm xs (ty, v) tInfo
                       | KStruct \<Rightarrow> parseArrayToStruct L dm xs (ty, v) tInfo
                       | _ \<Rightarrow> (Some (UnmarshalTypeError cborTypeArray (nonPtrType tInfo) None NoMsg),
                               v))
                  | IMap hasSize kvs \<Rightarrow>
                      (case nonPtrKind tInfo of
                         KStruct \<Rightarrow> parseMapToStruct L dm kvs (ty, v) tInfo
                       | KMap \<Rightarrow> parseMapToMap L dm kvs (ty, v) tInfo
                       | _ \<Rightarrow> (Some (UnmarshalTypeError cborTypeMap (nonPtrType tInfo) None NoMsg),
                               v))))))"

| "parseArrayToSlice L dm xs (ty, v) tInfo =
     (case parseArrayToSlice_loop L dm xs 0 (elemType ty) (elemType tInfo)
             (sliceBacking (length xs) (elemType tInfo) v) None of
        (e, elems) \<Rightarrow> (e, VSlice (Some (elems, length xs))))"

| "parseArrayToSlice_loop L dm [] i et eti elems err = (err, elems)"
| "parseArrayToSlice_loop L dm (x # xs) i et eti elems err =
     (if i < length elems then
        (case parseToValue L dm x (et, elems ! i) eti of
           (Some lastErr, e) \<Rightarrow>
             parseArrayToSlice_loop L dm xs (Suc i) et eti (elems[i := e]) (keepFirst err lastErr)
         | (None, e) \<Rightarrow> parseArrayToSlice_loop L dm xs (Suc i) et eti (elems[i := e]) err)
      else (Some (Panic ''reflect: slice index out of range''), elems))"

| "parseArrayToArray L dm xs (ty, v) tInfo =
     (case parseArrayToArray_loop L dm xs 0 (elemType ty) (elemType tInfo) (arrayElems v) None of
        (e, gi, elems) \<Rightarrow>
          (e, VArray (take gi elems @ replicate (length elems - gi) (zero (elemType tInfo)))))"

| "parseArrayToArray_loop L dm [] gi et eti elems err = (err, gi, elems)"
| "parseArrayToArray_loop L dm (x # xs) gi et eti elems err =
     (if gi < length elems then
        (case parseToValue L dm x (et, elems ! gi) eti of
           (Some lastErr, e) \<Rightarrow>
             parseArrayToArray_loop L dm xs (Suc gi) et eti (elems[gi := e]) (keepFirst err lastErr)
         | (None, e) \<Rightarrow> parseArrayToArray_loop L dm xs (Suc gi) et eti (elems[gi := e]) err)
      else parseArrayToArray_loop L dm xs gi et eti elems err)"

| "parseArrayToStruct L dm xs (ty, v) tInfo =
     (case typeErr (getDecodingStructType (nonPtrType tInfo)) of
        Some msg \<Rightarrow> (Some (ErrStructType msg), v)
      | None \<Rightarrow>
          if \<not> toArray (getDecodingStructType (nonPtrType tInfo)) then
            (Some (UnmarshalTypeError cborTypeArray (nonPtrType tInfo) None MsgNotToArray), v)
          else if length xs \<noteq> length (structFields (getDecodingStructType (nonPtrType tInfo))) then
            (Some (UnmarshalTypeError cborTypeArray tInfo None MsgDifferentNumberOfElements), v)
          else parseArrayToStruct_loop L dm xs 0
                 (structFields (getDecodingStructType (nonPtrType tInfo))) tInfo v None)"

| "parseArrayToStruct_loop L dm [] i flds tInfo v err = (err, v)"
| "parseArrayToStruct_loop L dm (x # xs) i flds tInfo v err =
     (if i < length flds then
        (case getField v (idx (flds ! i)) of
           None \<Rightarrow> (Some (Panic ''reflect: Field index out of range''), v)
         | Some fv \<Rightarrow>
            (case parseToValue L dm x (ftyp (flds ! i), fv) (ftyp (flds ! i)) of
               (Some lastErr, fv') \<Rightarrow>
                 parseArrayToStruct_loop L dm xs (Suc i) flds tInfo
                   (setField v (idx (flds ! i)) fv')
                   (if err = None
                    then Some (withStructFieldName tInfo (fname (flds ! i)) lastErr) else err)
             | (None, fv') \<Rightarrow>
                 parseArrayToStruct_loop L dm xs (Suc i) flds tInfo
                   (setField v (idx (flds ! i)) fv') err))
      else (Some (Panic ''index out of range''), v))"

| "parseMapToMap L dm kvs (ty, v) tInfo =
     (case parseMapToMap_loop L dm kvs 0 (keyType tInfo) (elemType tInfo) (mapEntries v) None
             (length (mapEntries v))
             (if dupMapKey dm = DupMapKeyEnforcedAPF
              then map (\<lambda>p. interfaceOf (keyType tInfo) (fst p)) (mapEntries v) else [])
             None None of
        (e, m) \<Rightarrow> (e, VMap (Some m)))"

| "parseMapToMap_loop L dm [] i kt et m err keyCount existingKeys keyValue eleValue = (err, m)"
| "parseMapToMap_loop L dm ((keyItem, valItem) # rest) i kt et m err keyCount existingKeys
       keyValue eleValue =
     (case parseToValue L dm keyItem (kt, reusedValue kt keyValue) kt of
        (Some lastErr, kv) \<Rightarrow>
          parseMapToMap_loop L dm rest (Suc i) kt et m (keepFirst err lastErr) keyCount
            existingKeys (Some kv) eleValue
      | (None, kv) \<Rightarrow>
         (case unhashableKey kt (wrapKeyValue dm kt kv) of
            Some t \<Rightarrow>
              parseMapToMap_loop L dm rest (Suc i) kt et m
                (keepFirst err (ErrInvalidMapKeyType t)) keyCount existingKeys
                (Some (wrapKeyValue dm kt kv)) eleValue
          | None \<Rightarrow>
             (case parseToValue L dm valItem (et, reusedValue et eleValue) et of
                (Some lastErr, ev) \<Rightarrow>
                  parseMapToMap_loop L dm rest (Suc i) kt et m (keepFirst err lastErr) keyCount
                    existingKeys (Some (wrapKeyValue dm kt kv)) (Some ev)
              | (None, ev) \<Rightarrow>
                  if dupMapKey dm = DupMapKeyEnforcedAPF then
                    (if length (setMapIndex (valEq L) (wrapKeyValue dm kt kv) ev m) = keyCount then
                       (if \<not> hasKey L (interfaceOf kt (wrapKeyValue dm kt kv)) existingKeys then
                          (Some (DupMapKeyError (interfaceOf kt (wrapKeyValue dm kt kv)) i),
                           setMapIndex (valEq L) (wrapKeyValue dm kt kv) (zero et)
                             (setMapIndex (valEq L) (wrapKeyValue dm kt kv) ev m))
                        else
                          parseMapToMap_loop L dm rest (Suc i) kt et
                            (setMapIndex (valEq L) (wrapKeyValue dm kt kv) ev m) err
                            (length (setMapIndex (valEq L) (wrapKeyValue dm kt kv) ev m))
                            (deleteKey L (interfaceOf kt (wrapKeyValue dm kt kv)) existingKeys)
                            (Some (wrapKeyValue dm kt kv)) (Some ev))
                     else
                       parseMapToMap_loop L dm rest (Suc i) kt et
                         (setMapIndex (valEq L) (wrapKeyValue dm kt kv) ev m) err
                         (length (setMapIndex (valEq L) (wrapKeyValue dm kt kv) ev m)) existingKeys
                         (Some (wrapKeyValue dm kt kv)) (Some ev))
                  else
                    parseMapToMap_loop L dm rest (Suc i) kt et
                      (setMapIndex (valEq L) (wrapKeyValue dm kt kv) ev m) err keyCount existingKeys
                      (Some (wrapKeyValue dm kt kv)) (Some ev))))"

| "parseMapToStruct L dm kvs (ty, v) tInfo =
     (case typeErr (getDecodingStructType (nonPtrType tInfo)) of
        Some msg \<Rightarrow> (Some (ErrStructType msg), v)
      | None \<Rightarrow>
          if toArray (getDecodingStructType (nonPtrType tInfo)) then
            (Some (UnmarshalTypeError cborTypeMap (nonPtrType tInfo) None MsgIsToArray), v)
          else parseMapToStruct_loop L dm kvs 0 tInfo v None
                 (replicate (length (structFields (getDecodingStructType (nonPtrType tInfo)))) False)
                 [] 0)"

| "parseMapToStruct_loop L dm [] j tInfo v err foundFldIdx mapKeys keyCount = (err, v)"
| "parseMapToStruct_loop L dm ((keyItem, valItem) # rest) j tInfo v err foundFldIdx mapKeys
       keyCount =
     (case keyItem of
        IText hasSize chunks \<Rightarrow>
          (case parseTextString L hasSize chunks of
             Inl lastErr \<Rightarrow>
               parseMapToStruct_loop L dm rest (Suc j) tInfo v (keepFirst err lastErr)
                 foundFldIdx mapKeys keyCount
           | Inr keyBytes \<Rightarrow>
               parseMapToStruct_value L dm valItem rest j tInfo v err
                 (fieldAt (structFields (getDecodingStructType (nonPtrType tInfo)))
                    (matchTextKey L (structFields (getDecodingStructType (nonPtrType tInfo)))
                       foundFldIdx keyBytes))
                 (markFound foundFldIdx
                    (matchTextKey L (structFields (getDecodingStructType (nonPtrType tInfo)))
                       foundFldIdx keyBytes))
                 (if dupMapKey dm = DupMapKeyEnforcedAPF then Some (TString, VString keyBytes)
                  else None)
                 mapKeys keyCount)
      | IUint val \<Rightarrow>
          parseMapToStruct_value L dm valItem rest j tInfo v err
            (fieldAt (structFields (getDecodingStructType (nonPtrType tInfo)))
               (matchIntKey (structFields (getDecodingStructType (nonPtrType tInfo)))
                  foundFldIdx (sint val)))
            (markFound foundFldIdx
               (matchIntKey (structFields (getDecodingStructType (nonPtrType tInfo)))
                  foundFldIdx (sint val)))
            (if dupMapKey dm = DupMapKeyEnforcedAPF then Some (TInt Sz64, VInt (sint val))
             else None)
            mapKeys keyCount
      | INint val \<Rightarrow>
          if val > maxInt64 then
            parseMapToStruct_loop L dm rest (Suc j) tInfo v
              (keepFirst err (UnmarshalTypeError cborTypeNegativeInt (TInt Sz64) None
                                (MsgOverflowsInt64 (- (uint val + 1)))))
              foundFldIdx mapKeys keyCount
          else
            parseMapToStruct_value L dm valItem rest j tInfo v err
              (fieldAt (structFields (getDecodingStructType (nonPtrType tInfo)))
                 (matchIntKey (structFields (getDecodingStructType (nonPtrType tInfo)))
                    foundFldIdx (sint ((- 1) XOR val))))
              (markFound foundFldIdx
                 (matchIntKey (structFields (getDecodingStructType (nonPtrType tInfo)))
                    foundFldIdx (sint ((- 1) XOR val))))
              (if dupMapKey dm = DupMapKeyEnforcedAPF
               then Some (TInt Sz64, VInt (sint ((- 1) XOR val))) else None)
              mapKeys keyCount
      | _ \<Rightarrow>
          if dupMapKey dm = DupMapKeyEnforcedAPF then
            (case parse L dm True keyItem of
               (k, Some lastErr) \<Rightarrow>
                 parseMapToStruct_loop L dm rest (Suc j) tInfo v
                   (keepFirst err (UnmarshalTypeError (nextCBORType keyItem) TString None
                                     (MsgMapKeyType (nextCBORType keyItem))))
                   foundFldIdx mapKeys keyCount
             | (k, None) \<Rightarrow>
                 if \<not> isHashableAny k then
                   parseMapToStruct_loop L dm rest (Suc j) tInfo v
                     (keepFirst err (UnmarshalTypeError (nextCBORType keyItem) TString None
                                       (MsgMapKeyType (nextCBORType keyItem))))
                     foundFldIdx mapKeys keyCount
                 else
                   parseMapToStruct_value L dm valItem rest j tInfo v
                     (keepFirst err (UnmarshalTypeError (nextCBORType keyItem) TString None
                                       (MsgMapKeyType (nextCBORType keyItem))))
                     None foundFldIdx k mapKeys keyCount)
          else
            parseMapToStruct_value L dm valItem rest j tInfo v
              (keepFirst err (UnmarshalTypeError (nextCBORType keyItem) TString None
                                (MsgMapKeyType (nextCBORType keyItem))))
              None foundFldIdx None mapKeys keyCount)"

| "parseMapToStruct_value L dm valItem rest j tInfo v err f foundFldIdx k mapKeys keyCount =
     (if dupMapKey dm = DupMapKeyEnforcedAPF \<and> length (insertKey L k mapKeys) = keyCount then
        (Some (DupMapKeyError k j), v)
      else
        (case f of
           None \<Rightarrow>
             if errOnUnknownField dm then (Some (UnknownFieldError j), v)
             else parseMapToStruct_loop L dm rest (Suc j) tInfo v err foundFldIdx
                    (if dupMapKey dm = DupMapKeyEnforcedAPF then insertKey L k mapKeys
                     else mapKeys)
                    (if dupMapKey dm = DupMapKeyEnforcedAPF then length (insertKey L k mapKeys)
                     else keyCount)
         | Some fld \<Rightarrow>
            (case getField v (idx fld) of
               None \<Rightarrow> (Some (Panic ''reflect: Field index out of range''), v)
             | Some fv \<Rightarrow>
                (case parseToValue L dm valItem (ftyp fld, fv) (ftyp fld) of
                   (lastErr, fv') \<Rightarrow>
                     parseMapToStruct_loop L dm rest (Suc j) tInfo (setField v (idx fld) fv')
                       (case lastErr of
                          Some e \<Rightarrow>
                            if err = None
                            then Some (withStructFieldName (nonPtrType tInfo) (fname fld) e)
                            else err
                        | None \<Rightarrow> err)
                       foundFldIdx
                       (if dupMapKey dm = DupMapKeyEnforcedAPF then insertKey L k mapKeys
                        else mapKeys)
                       (if dupMapKey dm = DupMapKeyEnforcedAPF
                        then length (insertKey L k mapKeys) else keyCount)))))"
  by pat_completeness auto

termination
proof -
  have size_stripTags: "size (stripTags it) \<le> size it" for it
    by (induction it rule: stripTags.induct) auto
  have checkRegisteredTag_size: "size it' \<le> size it"
    if "checkRegisteredTag dm it tInfo = Inr it'" for dm it tInfo it'
    using that size_stripTags [of it]
    by (auto simp: checkRegisteredTag_def split: option.splits if_splits)
  have registeredTypeAt_spclType: "spclType rt = specialTypeNone"
    if "registeredTypeAt dm it = Some rt" for dm it rt
    using that
    by (auto simp: registeredTypeAt_def getTypeFromTagNum_def split: option.splits
        dest: find_Some_iff [THEN iffD1])
  show ?thesis
  proof (relation "measure decodeMeasure", goal_cases)
    case 1
    show ?case by simp
  qed (use size_stripTags in \<open>auto simp: decodeMeasure_def valueRank_def spclType_def
        dest!: registeredTypeAt_spclType checkRegisteredTag_size
        intro: le_less_trans [OF mult_le_mono2 [OF size_stripTags]]\<close>)
qed

section \<open>Unmarshal\<close>

text \<open>
  Modelled from the spec: \<open>decoder.valid\<close> (valid.go) is not among the sources.  The
  spec (4.3) says: "A full structural well-formedness pass (header consistency,
  indefinite terminators, nesting <= max, element counts <= max) runs before any
  materialization", and (3) lists the limits and the indefinite-length and tags policies
  among the fields of the profile.  \<open>wellformed\<close> reads one data item from the bytes with
  \<open>getHead\<close> and gives an error when the data ends inside the item, when a head has
  reserved additional information (28 to 30) or marks an indefinite length where there is
  none, when an indefinite-length item has no break or (for a string) a chunk that is not
  a definite-length string of its type, when arrays, maps and tags are nested deeper than
  the levels left, when an array or map has more elements than the limit, and when the
  profile forbids the indefinite length or the tag.  Otherwise it gives the item, which
  is the tree the parsing functions work on, and the bytes after it.
\<close>

fun pairs :: "'a list \<Rightarrow> ('a \<times> 'a) list" where
  "pairs (k # v # rest) = (k, v) # pairs rest"
| "pairs _ = []"

fun indefChunks :: "cborType \<Rightarrow> nat \<Rightarrow> byte list \<Rightarrow> error + (byte list list \<times> byte list)" where
  "indefChunks t fuel dat =
     (case dat of
        [] \<Rightarrow> Inl (ErrNotWellFormed ''unexpected EOF'')
      | b # rest \<Rightarrow>
          if b = 0xff then Inr ([], rest)
          else if fuel = 0 then Inl (ErrNotWellFormed ''unexpected EOF'')
          else (case getHead dat of
                  None \<Rightarrow> Inl (ErrNotWellFormed ''unexpected EOF'')
                | Some (t', ai, val, rest') \<Rightarrow>
                    if t' \<noteq> t \<or> ai > 27
                    then Inl (ErrNotWellFormed ''wrong element type for indefinite-length string'')
                    else if unat val > length rest' then Inl (ErrNotWellFormed ''unexpected EOF'')
                    else (case indefChunks t (fuel - 1) (drop (unat val) rest') of
                            Inl e \<Rightarrow> Inl e
                          | Inr (chunks, rest'') \<Rightarrow> Inr (take (unat val) rest' # chunks, rest''))))"

fun
  wellformed :: "decMode \<Rightarrow> nat \<Rightarrow> byte list \<Rightarrow> error + (item \<times> byte list)" and
  wellformedN :: "decMode \<Rightarrow> nat \<Rightarrow> nat \<Rightarrow> byte list \<Rightarrow> error + (item list \<times> byte list)" and
  wellformedIndef :: "decMode \<Rightarrow> nat \<Rightarrow> nat \<Rightarrow> byte list \<Rightarrow> error + (item list \<times> byte list)"
where
  "wellformed dm depth dat =
     (case getHead dat of
        None \<Rightarrow> Inl (ErrNotWellFormed ''unexpected EOF'')
      | Some (t, ai, val, rest) \<Rightarrow>
          if ai = 28 \<or> ai = 29 \<or> ai = 30
          then Inl (ErrNotWellFormed ''invalid additional information'')
          else if ai = 31 then
            (if t = cborTypeByteString \<or> t = cborTypeTextString then
               (if indefLength dm = IndefLengthForbidden
                then Inl (ErrNotWellFormed ''indefinite-length item is not allowed'')
                else (case indefChunks t (length rest) rest of
                        Inl e \<Rightarrow> Inl e
                      | Inr (chunks, rest') \<Rightarrow>
                          if t = cborTypeByteString then Inr (IBytes False chunks, rest')
                          else Inr (IText False (map stringOfBytes chunks), rest')))
             else if t = cborTypeArray \<or> t = cborTypeMap then
               (if indefLength dm = IndefLengthForbidden
                then Inl (ErrNotWellFormed ''indefinite-length item is not allowed'')
                else if depth = 0 then Inl (ErrNotWellFormed ''exceeded max nested level'')
                else (case wellformedIndef dm (depth - 1)
                             (if t = cborTypeArray then nat (maxArrayElements dm)
                              else 2 * nat (maxMapPairs dm)) rest of
                        Inl e \<Rightarrow> Inl e
                      | Inr (xs, rest') \<Rightarrow>
                          if t = cborTypeArray then Inr (IArray False xs, rest')
                          else if odd (length xs)
                          then Inl (ErrNotWellFormed ''unexpected break'')
                          else Inr (IMap False (pairs xs), rest')))
             else Inl (ErrNotWellFormed ''invalid additional information''))
          else
            (case t of
               cborTypePositiveInt \<Rightarrow> Inr (IUint val, rest)
             | cborTypeNegativeInt \<Rightarrow> Inr (INint val, rest)
             | cborTypeByteString \<Rightarrow>
                 if unat val > length rest then Inl (ErrNotWellFormed ''unexpected EOF'')
                 else Inr (IBytes True [take (unat val) rest], drop (unat val) rest)
             | cborTypeTextString \<Rightarrow>
                 if unat val > length rest then Inl (ErrNotWellFormed ''unexpected EOF'')
                 else Inr (IText True [stringOfBytes (take (unat val) rest)],
                           drop (unat val) rest)
             | cborTypeArray \<Rightarrow>
                 if unat val > nat (maxArrayElements dm)
                 then Inl (ErrNotWellFormed ''exceeded max number of elements for CBOR array'')
                 else if depth = 0 then Inl (ErrNotWellFormed ''exceeded max nested level'')
                 else (case wellformedN dm (depth - 1) (unat val) rest of
                         Inl e \<Rightarrow> Inl e
                       | Inr (xs, rest') \<Rightarrow> Inr (IArray True xs, rest'))
             | cborTypeMap \<Rightarrow>
                 if unat val > nat (maxMapPairs dm)
                 then Inl (ErrNotWellFormed ''exceeded max number of key-value pairs for CBOR map'')
                 else if depth = 0 then Inl (ErrNotWellFormed ''exceeded max nested level'')
                 else (case wellformedN dm (depth - 1) (2 * unat val) rest of
                         Inl e \<Rightarrow> Inl e
                       | Inr (xs, rest') \<Rightarrow> Inr (IMap True (pairs xs), rest'))
             | cborTypeTag \<Rightarrow>
                 if tagsMd dm = TagsForbidden then Inl (ErrNotWellFormed ''CBOR tag is not allowed'')
                 else if depth = 0 then Inl (ErrNotWellFormed ''exceeded max nested level'')
                 else (case wellformed dm (depth - 1) rest of
                         Inl e \<Rightarrow> Inl e
                       | Inr (c, rest') \<Rightarrow> Inr (ITag val c, rest'))
             | cborTypePrimitives \<Rightarrow> Inr (IPrim ai val, rest)))"

| "wellformedN dm depth n dat =
     (if n = 0 then Inr ([], dat)
      else (case wellformed dm depth dat of
              Inl e \<Rightarrow> Inl e
            | Inr (x, rest) \<Rightarrow>
               (case wellformedN dm depth (n - 1) rest of
                  Inl e \<Rightarrow> Inl e
                | Inr (xs, rest') \<Rightarrow> Inr (x # xs, rest'))))"

| "wellformedIndef dm depth k dat =
     (case dat of
        [] \<Rightarrow> Inl (ErrNotWellFormed ''unexpected EOF'')
      | b # rest \<Rightarrow>
          if b = 0xff then Inr ([], rest)
          else if k = 0 then Inl (ErrNotWellFormed ''exceeded max number of elements'')
          else (case wellformed dm depth dat of
                  Inl e \<Rightarrow> Inl e
                | Inr (x, rest') \<Rightarrow>
                   (case wellformedIndef dm depth (k - 1) rest' of
                      Inl e \<Rightarrow> Inl e
                    | Inr (xs, rest'') \<Rightarrow> Inr (x # xs, rest''))))"

text \<open>\<open>decoder.valid\<close>: the well-formedness pass over the data from the read offset on,
  with the nesting limit of the mode.\<close>

definition valid :: "decMode \<Rightarrow> byte list \<Rightarrow> error + (item \<times> byte list)" where
  "valid dm dat = wellformed dm (nat (maxNestedLevels dm)) dat"

text \<open>
  \<open>decoder.value\<close>.  \<open>v\<close> is the \<open>any\<close> handed to \<open>Unmarshal\<close>: it must hold a pointer that is
  not nil, and the value the pointer points to is the target.  The result is the error
  and \<open>v\<close> as it is afterwards.
\<close>

definition "value" :: "lib \<Rightarrow> decMode \<Rightarrow> byte list \<Rightarrow> any \<Rightarrow> error option \<times> any" where
  "value L dm dat v =
     (case v of
        None \<Rightarrow> (Some (InvalidUnmarshalError ''cbor: Unmarshal(nil)''), v)
      | Some (TPtr ty, VPtr (Some target)) \<Rightarrow>
          (case valid dm dat of
             Inl e \<Rightarrow> (Some e, v)
           | Inr (it, rest) \<Rightarrow>
               (case parseToValue L dm it (ty, target) ty of
                  (e, target') \<Rightarrow> (e, Some (TPtr ty, VPtr (Some target')))))
      | Some (TPtr ty, _) \<Rightarrow> (Some (InvalidUnmarshalError ''cbor: Unmarshal(nil pointer)''), v)
      | Some (_, _) \<Rightarrow> (Some (InvalidUnmarshalError ''cbor: Unmarshal(non-pointer)''), v))"

text \<open>\<open>decMode.Unmarshal\<close>, and \<open>Unmarshal\<close> with the default mode.\<close>

definition decMode_Unmarshal :: "lib \<Rightarrow> decMode \<Rightarrow> byte list \<Rightarrow> any \<Rightarrow> error option \<times> any" where
  "decMode_Unmarshal L dm dat v = value L dm dat v"

definition Unmarshal :: "lib \<Rightarrow> byte list \<Rightarrow> any \<Rightarrow> error option \<times> any" where
  "Unmarshal L dat v = decMode_Unmarshal L defaultDecMode dat v"


section \<open>Notions used in the statements\<close>

text \<open>The mode has no tag registered as required for the type under the pointers of
  \<open>ty\<close>: the check of \<open>parseToValue\<close> for a missing required tag does not apply.\<close>

definition tagNotRequired :: "decMode \<Rightarrow> gotype \<Rightarrow> bool" where
  "tagNotRequired dm ty =
     (case getRegisteredTagItem dm (nonPtrType ty) of
        None \<Rightarrow> True
      | Some tagItem \<Rightarrow> decTag tagItem \<noteq> DecTagRequired)"

text \<open>An instance of the library functions for the worked examples, which use ASCII
  text, no floats, no pointers as map keys and no \<open>UnmarshalCBOR\<close> methods: every string
  is valid UTF-8, folding compares ASCII letters without case, \<open>==\<close> is equality of the
  values.\<close>

definition asciiLower :: "char \<Rightarrow> char" where
  "asciiLower c =
     (if of_char c \<ge> (65 :: nat) \<and> of_char c \<le> (90 :: nat) then char_of (of_char c + (32 :: nat))
      else c)"

definition sampleLib :: lib where
  "sampleLib = \<lparr> utf8Valid = (\<lambda>s. True),
     equalFold = (\<lambda>a b. map asciiLower a = map asciiLower b),
     timeParse = (\<lambda>s. True), isNaNOrInf = (\<lambda>f. False), overflowFloat32 = (\<lambda>f. False),
     unmarshalCBOR = (\<lambda>n it v. (None, v)), valEq = (\<lambda>a b. a = b) \<rparr>"





text \<open>The matching of a text key as the specification describes it: the first field not
  matched so far whose name is the key; if there is none, the first field not matched so far
  whose name equals the key without regard to case.\<close>

definition firstUnmatched :: "('t fld \<Rightarrow> bool) \<Rightarrow> 't fld list \<Rightarrow> bool list \<Rightarrow> nat option" where
  "firstUnmatched cond flds found =
     (case filter (\<lambda>n. \<not> found ! n \<and> cond (flds ! n)) [0..<length flds] of
        [] \<Rightarrow> None | n # _ \<Rightarrow> Some n)"

definition matchTextKey_spec :: "lib \<Rightarrow> 't fld list \<Rightarrow> bool list \<Rightarrow> string \<Rightarrow> nat option" where
  "matchTextKey_spec L flds found key =
     (case firstUnmatched (\<lambda>fld. fname fld = key) flds found of
        Some n \<Rightarrow> Some n
      | None \<Rightarrow> firstUnmatched (\<lambda>fld. equalFold L (fname fld) key) flds found)"

text \<open>An instance of the library functions in which \<open>strings.EqualFold\<close> knows one letter
  beyond ASCII: the long s (U+017F, the bytes c5 bf in UTF-8), which Unicode's simple case
  folding puts with \<open>s\<close> and \<open>S\<close>.\<close>

fun foldLongS :: "string \<Rightarrow> string" where
  "foldLongS (c # d # cs) =
     (if c = CHR 0xC5 \<and> d = CHR 0xBF then CHR ''s'' # foldLongS cs
      else asciiLower c # foldLongS (d # cs))"
| "foldLongS [c] = [asciiLower c]"
| "foldLongS [] = []"

definition foldLib :: lib where
  "foldLib = sampleLib \<lparr> equalFold := (\<lambda>a b. foldLongS a = foldLongS b) \<rparr>"





declare parse.simps [simp del] parse_item.simps [simp del] parseToTime.simps [simp del]
  parseToTag.simps [simp del] parseArray.simps [simp del] parseMap.simps [simp del]
  parseToValue.simps [simp del] parseToValue_tags.simps [simp del]
  parseToValue_item.simps [simp del] parseArrayToSlice.simps [simp del]
  parseArrayToArray.simps [simp del] parseArrayToStruct.simps [simp del]
  parseMapToMap.simps [simp del] parseMapToStruct.simps [simp del]
  parseMapToStruct_value.simps [simp del]
  parseArray_loop.simps(2) [simp del] parseMap_loop.simps(2) [simp del]
  parseArrayToSlice_loop.simps(2) [simp del] parseArrayToArray_loop.simps(2) [simp del]
  parseArrayToStruct_loop.simps(2) [simp del] parseMapToMap_loop.simps(2) [simp del]
  parseMapToStruct_loop.simps(2) [simp del]
  wellformed.simps [simp del] wellformedN.simps [simp del] wellformedIndef.simps [simp del]
  indefChunks.simps [simp del]

section \<open>Facts about heads\<close>

lemma argumentBytes_numeral:
  "argumentBytes 1 n = [ucast n]"
  "argumentBytes 2 n = [ucast (drop_bit 8 n), ucast n]"
  "argumentBytes 4 n = [ucast (drop_bit 24 n), ucast (drop_bit 16 n), ucast (drop_bit 8 n), ucast n]"
  "argumentBytes 8 n = [ucast (drop_bit 56 n), ucast (drop_bit 48 n), ucast (drop_bit 40 n),
      ucast (drop_bit 32 n), ucast (drop_bit 24 n), ucast (drop_bit 16 n),
      ucast (drop_bit 8 n), ucast n]"
  by (simp_all add: eval_nat_numeral)

lemma minimalWidth_cases:
  "minimalWidth n =
     (if n \<le> 23 then 0 else if n \<le> 0xff then 1 else if n \<le> 0xffff then 2
      else if n \<le> 0xffffffff then 4 else 8)"
  by (simp add: minimalWidth_def headWidths_def fitsWidth_def word_le_nat_alt)

lemma encodeHead_eq_encodeCborHeader: "encodeHead t n = encodeCborHeader t n"
  by (simp add: encodeHead_def encodeCborHeader_def minimalWidth_cases additionalInfo_def
      argumentBytes_numeral bigEndianPutUint16_def bigEndianPutUint32_def bigEndianPutUint64_def)

lemma minimalWidth_fits: "fitsWidth (minimalWidth n) n"
  using unsigned_less [of n, where ?'a = nat]
  by (simp add: minimalWidth_cases fitsWidth_def word_le_nat_alt not_le)

lemma minimalWidth_least: "w \<in> set headWidths \<Longrightarrow> fitsWidth w n \<Longrightarrow> minimalWidth n \<le> w"
  by (auto simp: minimalWidth_cases fitsWidth_def headWidths_def word_le_nat_alt)

lemma length_encodeHead: "length (encodeHead t n) = Suc (minimalWidth n)"
  by (simp add: encodeHead_def Let_def minimalWidth_cases argumentBytes_numeral)

lemmas encodeInt_defs =
  encodeInt_def encodeHead_def minimalWidth_def headWidths_def fitsWidth_def additionalInfo_def
  argumentBytes_numeral

lemma marshalTests_encodeInt: "map (encodeInt \<circ> snd) marshalTests = map fst marshalTests"
  by (simp add: marshalTests_def encodeInt_defs)

lemma byte_step:
  fixes n :: uint64
  shows "push_bit 8 (drop_bit (k + 8) n) OR ucast (ucast (drop_bit k n) :: byte) = drop_bit k n"
proof (rule bit_word_eqI)
  fix m
  assume m: "m < LENGTH(64)"
  show "bit (push_bit 8 (drop_bit (k + 8) n) OR ucast (ucast (drop_bit k n) :: byte)) m
        = bit (drop_bit k n) m"
  proof (cases "m < 8")
    case True
    with m show ?thesis by (simp add: bit_simps)
  next
    case False
    then have "k + 8 + (m - 8) = k + m" by simp
    with False m show ?thesis by (simp add: bit_simps)
  qed
qed

lemma drop_bit_small:
  fixes n :: uint64
  assumes "n < 2 ^ m"
  shows "drop_bit m n = 0"
proof -
  have "take_bit m n = n" using less_mask_eq [OF assms] by (simp add: take_bit_eq_mask)
  then show ?thesis by (simp add: take_bit_eq_self_iff_drop_bit_eq_0)
qed

lemmas byte_steps =
  byte_step [of 0, simplified] byte_step [of 8, simplified] byte_step [of 16, simplified]
  byte_step [of 24, simplified] byte_step [of 32, simplified] byte_step [of 40, simplified]
  byte_step [of 48, simplified] byte_step [of 56, simplified]

lemma bigEndianUint8: "n \<le> 0xff \<Longrightarrow> (ucast (ucast n :: byte) :: uint64) = n"
  using byte_step [of 0 n] drop_bit_small [of n 8]
  by (simp add: word_le_nat_alt word_less_nat_alt)

lemma bigEndianUint16: "n \<le> 0xffff \<Longrightarrow> bigEndianUint (bigEndianPutUint16 n) 0 = n"
  using byte_step [of 8 n] drop_bit_small [of n 16]
  by (simp add: bigEndianPutUint16_def byte_steps word_le_nat_alt word_less_nat_alt)

lemma bigEndianUint32: "n \<le> 0xffffffff \<Longrightarrow> bigEndianUint (bigEndianPutUint32 n) 0 = n"
  using byte_step [of 24 n] drop_bit_small [of n 32]
  by (simp add: bigEndianPutUint32_def byte_steps word_le_nat_alt word_less_nat_alt)

lemma bigEndianUint64: "bigEndianUint (bigEndianPutUint64 n) 0 = n"
  using byte_step [of 56 n]
  by (simp add: bigEndianPutUint64_def byte_steps)
lemma ai_mask:
  fixes a :: byte
  assumes "a \<le> 0x1f"
  shows "a AND 0x1f = a" and "a AND 0xe0 = 0"
proof -
  from assms have "a < 2 ^ 5" by (simp add: word_le_nat_alt word_less_nat_alt)
  then have m: "a AND mask 5 = a" by (rule less_mask_eq)
  then show "a AND 0x1f = a" by (simp add: mask_eq_exp_minus_1)
  have "a AND 0xe0 = (a AND mask 5) AND 0xe0" by (simp add: m)
  also have "\<dots> = a AND (mask 5 AND 0xe0)" by (simp add: ac_simps)
  also have "\<dots> = 0" by (simp add: mask_eq_exp_minus_1)
  finally show "a AND 0xe0 = 0" .
qed

lemma head_byte:
  assumes "a \<le> 0x1f"
  shows "(cborTypeByte t OR a) AND 0x1f = a" and "cborTypeOf (cborTypeByte t OR a) = t"
proof -
  have t: "cborTypeByte t AND 0x1f = 0" "cborTypeByte t AND 0xe0 = cborTypeByte t"
    by (cases t; simp)+
  show "(cborTypeByte t OR a) AND 0x1f = a"
    by (simp add: bit.conj_disj_distrib2 t ai_mask [OF assms])
  have "(cborTypeByte t OR a) AND 0xe0 = cborTypeByte t"
    by (simp add: bit.conj_disj_distrib2 t ai_mask [OF assms])
  then show "cborTypeOf (cborTypeByte t OR a) = t"
    by (cases t) (simp_all add: cborTypeOf_def)
qed

lemma ucast_small:
  fixes n :: uint64
  assumes "n \<le> 23"
  shows "(ucast n :: byte) \<le> 0x1f" "(ucast n :: byte) < 24" "(ucast (ucast n :: byte) :: uint64) = n"
proof -
  from assms have u: "unat n \<le> 23" by (simp add: word_le_nat_alt)
  then have "unat (ucast n :: byte) = unat n"
    by (simp add: unsigned_ucast_eq take_bit_nat_eq_self)
  with u show "(ucast n :: byte) \<le> 0x1f" "(ucast n :: byte) < 24"
    by (simp_all add: word_le_nat_alt word_less_nat_alt)
  from assms have "n \<le> 0xff" by (simp add: word_le_nat_alt)
  then show "(ucast (ucast n :: byte) :: uint64) = n" by (rule bigEndianUint8)
qed

lemma getHead_encodeCborHeader:
  "\<exists>ai. getHead (encodeCborHeader t n @ rest) = Some (t, ai, n, rest)"
proof -
  consider "n \<le> 23" | "\<not> n \<le> 23" "n \<le> 0xff" | "\<not> n \<le> 0xff" "n \<le> 0xffff"
    | "\<not> n \<le> 0xffff" "n \<le> 0xffffffff" | "\<not> n \<le> 0xffffffff" by blast
  then show ?thesis
  proof cases
    case 1
    then show ?thesis
      by (simp add: encodeCborHeader_def getHead_def head_byte ucast_small)
  next
    case 2
    then show ?thesis
      by (simp add: encodeCborHeader_def getHead_def head_byte bigEndianUint8)
  next
    case 3
    then have "n \<le> 0xffff \<and> \<not> n \<le> 23 \<and> \<not> n \<le> 0xff" by (simp add: word_le_nat_alt)
    then show ?thesis
      using bigEndianUint16 [of n]
      by (simp add: encodeCborHeader_def getHead_def head_byte bigEndianPutUint16_def)
  next
    case 4
    then have "n \<le> 0xffffffff \<and> \<not> n \<le> 23 \<and> \<not> n \<le> 0xff \<and> \<not> n \<le> 0xffff" by (simp add: word_le_nat_alt)
    then show ?thesis
      using bigEndianUint32 [of n]
      by (simp add: encodeCborHeader_def getHead_def head_byte bigEndianPutUint32_def)
  next
    case 5
    then have "\<not> n \<le> 0xffffffff \<and> \<not> n \<le> 23 \<and> \<not> n \<le> 0xff \<and> \<not> n \<le> 0xffff" by (simp add: word_le_nat_alt)
    then show ?thesis
      using bigEndianUint64 [of n]
      by (simp add: encodeCborHeader_def getHead_def head_byte bigEndianPutUint64_def)
  qed
qed


text \<open>
  C9.  The head the encoder writes for a value has the least of the widths 0, 1, 2, 4, 8
  that represents the value: that width represents it, no smaller width of a head
  does, the head is one byte longer than it, and \<open>getHead\<close> reads type and value back
  from it.  The head is the one the tests build with \<open>encodeCborHeader\<close>.  In particular
  23 is encoded as 0x17, 24 as 0x1818, 256 as 0x190100 and 65536 as 0x1a00010000, and
  every integer row of \<open>marshalTests\<close> is met.
\<close>

theorem encodeHead_minimal_width:
  "fitsWidth (minimalWidth n) n
   \<and> (\<forall>w \<in> set headWidths. fitsWidth w n \<longrightarrow> minimalWidth n \<le> w)
   \<and> length (encodeHead t n) = Suc (minimalWidth n)
   \<and> encodeHead t n = encodeCborHeader t n
   \<and> (\<exists>ai. getHead (encodeHead t n @ rest) = Some (t, ai, n, rest))
   \<and> encodeInt 23 = [0x17]
   \<and> encodeInt 24 = [0x18, 0x18]
   \<and> encodeInt 256 = [0x19, 0x01, 0x00]
   \<and> encodeInt 65536 = [0x1a, 0x00, 0x01, 0x00, 0x00]
   \<and> map (encodeInt \<circ> snd) marshalTests = map fst marshalTests"
proof -
  have "encodeInt 23 = [0x17]" "encodeInt 24 = [0x18, 0x18]"
    "encodeInt 256 = [0x19, 0x01, 0x00]" "encodeInt 65536 = [0x1a, 0x00, 0x01, 0x00, 0x00]"
    by (simp_all add: encodeInt_defs)
  then show ?thesis
    using minimalWidth_fits [of n] minimalWidth_least [of _ n] length_encodeHead [of t n]
      getHead_encodeCborHeader [of t n rest] marshalTests_encodeInt
    by (simp add: encodeHead_eq_encodeCborHeader)
qed

theorem encodeHead_minimal_width_witness:
  "2 \<in> set headWidths \<and> fitsWidth 2 (256 :: uint64) \<and> \<not> fitsWidth 1 (256 :: uint64)
   \<and> minimalWidth 256 \<le> 2
   \<and> length (encodeHead cborTypePositiveInt 256) = Suc (minimalWidth 256)"
proof -
  have "2 \<in> set headWidths" "fitsWidth 2 (256 :: uint64)" "\<not> fitsWidth 1 (256 :: uint64)"
    by (simp_all add: headWidths_def fitsWidth_def)
  then show ?thesis
    using encodeHead_minimal_width [of 256 cborTypePositiveInt "[]"] by blast
qed


section \<open>Decoding null and undefined\<close>

lemma checkRegisteredTag_not_tag:
  "nextCBORType it \<noteq> cborTypeTag \<Longrightarrow>
   checkRegisteredTag dm it tInfo =
     (case getRegisteredTagItem dm (nonPtrType tInfo) of
        None \<Rightarrow> Inr it
      | Some tagItem \<Rightarrow>
          if decTag tagItem = DecTagRequired
          then Inl (UnmarshalTypeError (nextCBORType it) tInfo None MsgExpectTag) else Inr it)"
  by (simp add: checkRegisteredTag_def split: option.splits)

lemma parse_null:
  "parse L dm s (IPrim 22 val) = (None, None)" "parse L dm s (IPrim 23 val) = (None, None)"
  by (simp_all add: parse.simps parse_item.simps checkBuiltinTag_def)

lemma parseToValue_item_null:
  assumes "it = IPrim 22 val \<or> it = IPrim 23 val"
  shows "parseToValue_item L dm it (ty, v) tInfo =
     (case spclType tInfo of
        specialTypeEmptyIface \<Rightarrow> (None, v)
      | specialTypeTag \<Rightarrow> (None, v)
      | specialTypeTime \<Rightarrow> (None, v)
      | specialTypeUnmarshalerIface \<Rightarrow> parseToUnmarshaler L it (ty, v)
      | specialTypeNone \<Rightarrow>
          (case checkRegisteredTag dm it tInfo of
             Inl e \<Rightarrow> (Some e, v)
           | Inr it' \<Rightarrow> fillNil cborTypePrimitives (ty, v)))"
  using assms
  apply (elim disjE)
   apply (simp_all only:)
   apply (subst parseToValue_item.simps)
   apply (simp add: checkBuiltinTag_def parse_null parseToTag.simps nextCBORNil_def
      checkRegisteredTag_not_tag del: fillNil.simps split: specialType.splits option.splits)
  apply (subst parseToValue_item.simps)
  apply (simp add: checkBuiltinTag_def parse_null parseToTag.simps nextCBORNil_def
      checkRegisteredTag_not_tag del: fillNil.simps split: specialType.splits option.splits)
  done

lemma parseToValue_null:
  assumes "it = IPrim 22 val \<or> it = IPrim 23 val"
  shows "parseToValue L dm it (ty, v) tInfo = parseToValue_item L dm it (ty, v) tInfo"
  using assms by (auto simp: parseToValue.simps parseToValue_tags.simps nextCBORNil_def)

lemma checkRegisteredTag_null:
  assumes "it = IPrim 22 val \<or> it = IPrim 23 val" "tagNotRequired dm tInfo"
  shows "checkRegisteredTag dm it tInfo = Inr it"
  using assms by (auto simp: checkRegisteredTag_not_tag tagNotRequired_def split: option.splits)

text \<open>
  C10 (as amended).  Decoding null (0xf6) or undefined (0xf7) into a target that is not
  of pointer, slice, map or interface kind returns no error and leaves the target as it
  is, when the target type has no \<open>UnmarshalCBOR\<close> method of its own and the mode has no
  tag registered as required for it.  The second part says the same of \<open>decoder.value\<close>
  on data whose item is null or undefined.
\<close>

theorem null_into_other_kinds_is_noop:
  assumes "it = IPrim 22 val \<or> it = IPrim 23 val"
    and "kindOf ty \<noteq> KPtr" "kindOf ty \<noteq> KSlice" "kindOf ty \<noteq> KMap" "kindOf ty \<noteq> KInterface"
    and "spclType ty \<noteq> specialTypeUnmarshalerIface"
    and "tagNotRequired dm ty"
  shows "parseToValue L dm it (ty, v) ty = (None, v)
    \<and> (valid dm dat = Inr (it, rest) \<longrightarrow>
         value L dm dat (Some (TPtr ty, VPtr (Some v))) = (None, Some (TPtr ty, VPtr (Some v))))"
proof -
  have "parseToValue L dm it (ty, v) ty = (None, v)"
    using assms
    by (simp add: parseToValue_null [OF assms(1)] parseToValue_item_null [OF assms(1)]
        checkRegisteredTag_null [OF assms(1)] split: specialType.splits)
  then show ?thesis by (simp add: value_def)
qed

text \<open>C10, witness: null into an \<open>int32\<close> holding 7, default mode.\<close>

theorem null_into_other_kinds_is_noop_witness:
  "valid defaultDecMode [0xf6] = Inr (IPrim 22 22, [])
   \<and> tagNotRequired defaultDecMode (TInt Sz32)
   \<and> Unmarshal sampleLib [0xf6] (Some (TPtr (TInt Sz32), VPtr (Some (VInt 7))))
       = (None, Some (TPtr (TInt Sz32), VPtr (Some (VInt 7))))"
proof -
  have v: "valid defaultDecMode [0xf6] = Inr (IPrim 22 22, [])"
    by (simp add: valid_def wellformed.simps getHead_def cborTypeOf_def defaultDecMode_def)
  have t: "tagNotRequired defaultDecMode (TInt Sz32)"
    by (simp add: tagNotRequired_def getRegisteredTagItem_def defaultDecMode_def)
  show ?thesis
    using null_into_other_kinds_is_noop [of "IPrim 22 22" 22 "TInt Sz32" defaultDecMode
        sampleLib "VInt 7" "[0xf6]" "[]"] v t
    by (simp add: spclType_def Unmarshal_def decMode_Unmarshal_def)
qed

text \<open>
  C10, counterexample to the claim as stated: in a mode built by \<open>DecModeWithTags\<close> with
  tag 100 registered as required for the struct type \<open>T\<close>, decoding null into a \<open>T\<close>
  returns the \<open>UnmarshalTypeError\<close> "expect CBOR tag value".
\<close>

theorem null_into_required_tag_type_counterexample:
  "DecModeWithTags zeroDecOptions
       (Some [TagItem (TStruct ''T'' [] (DecodingStructType [] None False)) [100] DecTagRequired])
     = Inr (defaultDecMode\<lparr>tags :=
         Some [TagItem (TStruct ''T'' [] (DecodingStructType [] None False)) [100] DecTagRequired]\<rparr>)
   \<and> kindOf (TStruct ''T'' [] (DecodingStructType [] None False)) = KStruct
   \<and> decMode_Unmarshal sampleLib
        (defaultDecMode\<lparr>tags :=
           Some [TagItem (TStruct ''T'' [] (DecodingStructType [] None False)) [100] DecTagRequired]\<rparr>)
        [0xf6]
        (Some (TPtr (TStruct ''T'' [] (DecodingStructType [] None False)), VPtr (Some (VStruct []))))
      = (Some (UnmarshalTypeError cborTypePrimitives
                 (TStruct ''T'' [] (DecodingStructType [] None False)) None MsgExpectTag),
         Some (TPtr (TStruct ''T'' [] (DecodingStructType [] None False)), VPtr (Some (VStruct []))))"
  by code_simp

lemma derefPtrs_underPtrs:
  "derefPtrs (TPtr t) (VPtr None) = (case derefPtrs t (zero t) of (n, r) \<Rightarrow> (Suc n, r))"
  by simp

text \<open>
  C3 (as amended).  When the next item is null or undefined: a target of pointer, slice
  or map kind is set to nil and no error is returned, provided the type under its
  pointers is not an interface, \<open>cbor.Tag\<close>, \<open>time.Time\<close> or a type with its own
  \<open>UnmarshalCBOR\<close> and has no tag registered as required.  When the next item is
  neither, a nil pointer target is set to point to a new zero value and the item is
  decoded into that value.
\<close>

theorem null_sets_nilable_targets_nil:
  "((it = IPrim 22 val \<or> it = IPrim 23 val)
      \<and> (kindOf ty = KPtr \<or> kindOf ty = KSlice \<or> kindOf ty = KMap)
      \<and> spclType ty = specialTypeNone \<and> tagNotRequired dm ty
     \<longrightarrow> parseToValue L dm it (ty, v) ty = (None, zero ty)
         \<and> zero ty \<in> {VPtr None, VSlice None, VMap None})
   \<and> (\<not> nextCBORNil it
     \<longrightarrow> parseToValue L dm it (TPtr t, VPtr None) tInfo =
          (case parseToValue L dm it (t, zero t) tInfo of (e, x) \<Rightarrow> (e, VPtr (Some x))))"
proof (intro conjI impI)
  assume a: "(it = IPrim 22 val \<or> it = IPrim 23 val)
      \<and> (kindOf ty = KPtr \<or> kindOf ty = KSlice \<or> kindOf ty = KMap)
      \<and> spclType ty = specialTypeNone \<and> tagNotRequired dm ty"
  then have n: "it = IPrim 22 val \<or> it = IPrim 23 val" by simp
  from a show "parseToValue L dm it (ty, v) ty = (None, zero ty)"
    by (auto simp: parseToValue_null [OF n] parseToValue_item_null [OF n]
        checkRegisteredTag_null [OF n])
  from a show "zero ty \<in> {VPtr None, VSlice None, VMap None}"
    by (cases ty) auto
next
  assume "\<not> nextCBORNil it"
  then show "parseToValue L dm it (TPtr t, VPtr None) tInfo =
          (case parseToValue L dm it (t, zero t) tInfo of (e, x) \<Rightarrow> (e, VPtr (Some x)))"
    by (simp add: parseToValue.simps split: prod.splits)
qed

text \<open>C3, witness: null into a \<open>*int32\<close>, undefined into a slice of one element; the
  integer 9 into a nil \<open>*int32\<close>.\<close>

theorem null_sets_nilable_targets_nil_witness:
  "tagNotRequired defaultDecMode (TPtr (TInt Sz32))
   \<and> parseToValue sampleLib defaultDecMode (IPrim 22 22) (TPtr (TInt Sz32), VPtr (Some (VInt 7)))
        (TPtr (TInt Sz32)) = (None, VPtr None)
   \<and> tagNotRequired defaultDecMode (TSlice (TInt Sz32))
   \<and> parseToValue sampleLib defaultDecMode (IPrim 23 23)
        (TSlice (TInt Sz32), VSlice (Some ([VInt 7], 1))) (TSlice (TInt Sz32)) = (None, VSlice None)
   \<and> \<not> nextCBORNil (IUint 9)
   \<and> parseToValue sampleLib defaultDecMode (IUint 9) (TPtr (TInt Sz32), VPtr None) (TPtr (TInt Sz32))
       = (None, VPtr (Some (VInt 9)))"
proof -
  have t: "tagNotRequired defaultDecMode (TPtr (TInt Sz32))"
    "tagNotRequired defaultDecMode (TSlice (TInt Sz32))"
    by (simp_all add: tagNotRequired_def getRegisteredTagItem_def defaultDecMode_def)
  have n: "\<not> nextCBORNil (IUint 9)" by (simp add: nextCBORNil_def)
  have z: "parseToValue sampleLib defaultDecMode (IUint 9) (TInt Sz32, zero (TInt Sz32))
             (TPtr (TInt Sz32)) = (None, VInt 9)"
    by code_simp
  note th = null_sets_nilable_targets_nil [of _ _ _ defaultDecMode sampleLib]
  from th [of "IPrim 22 22" 22 "TPtr (TInt Sz32)" "VPtr (Some (VInt 7))"] t
  have a: "parseToValue sampleLib defaultDecMode (IPrim 22 22)
        (TPtr (TInt Sz32), VPtr (Some (VInt 7))) (TPtr (TInt Sz32)) = (None, VPtr None)"
    by (simp add: spclType_def)
  from th [of "IPrim 23 23" 23 "TSlice (TInt Sz32)" "VSlice (Some ([VInt 7], 1))"] t
  have b: "parseToValue sampleLib defaultDecMode (IPrim 23 23)
        (TSlice (TInt Sz32), VSlice (Some ([VInt 7], 1))) (TSlice (TInt Sz32)) = (None, VSlice None)"
    by (simp add: spclType_def)
  from th [of "IUint 9" _ _ _ "TInt Sz32" "TPtr (TInt Sz32)"] n z
  have c: "parseToValue sampleLib defaultDecMode (IUint 9) (TPtr (TInt Sz32), VPtr None)
        (TPtr (TInt Sz32)) = (None, VPtr (Some (VInt 9)))"
    by simp
  from t a b n c show ?thesis by simp
qed

text \<open>
  C3, counterexample to the claim as stated: \<open>Unmarshal\<close> of null into a target of
  interface kind that holds the \<open>uint64\<close> 5 returns no error and leaves the 5 there; the
  target is not set to nil.
\<close>

theorem null_into_interface_counterexample:
  "kindOf TIface = KInterface
   \<and> valid defaultDecMode [0xf6] = Inr (IPrim 22 22, [])
   \<and> Unmarshal sampleLib [0xf6] (Some (TPtr TIface, VPtr (Some (VIface (Some (TUint Sz64, VUint 5))))))
      = (None, Some (TPtr TIface, VPtr (Some (VIface (Some (TUint Sz64, VUint 5))))))"
  by code_simp



section \<open>Integers into a generic target\<close>

lemma sint_small: "(val::uint64) \<le> maxInt64 \<Longrightarrow> sint val = uint val"
proof -
  assume "val \<le> maxInt64"
  then have "uint val < 2 ^ 63" by (simp add: maxInt64_def word_le_def)
  then show ?thesis
    by (simp add: sint_uint signed_take_bit_eq_if_positive bit_uint_iff take_bit_int_eq_self
    bit_iff_odd)
qed

lemma sint_xor_small: "(val::uint64) \<le> maxInt64 \<Longrightarrow> sint ((- 1) XOR val) = - 1 - uint val"
proof -
  assume a: "val \<le> maxInt64"
  have "sint ((- 1) XOR val) = sint (NOT val)" by simp
  also have "\<dots> = signed_take_bit 64 (NOT (sint val))" by (simp add: signed_not_eq)
  also have "\<dots> = signed_take_bit 64 (- 1 - uint val)"
  proof -
    have "NOT (sint val) = - 1 - uint val"
      unfolding sint_small [OF a] not_int_def by arith
    then show ?thesis by (simp only:)
  qed
  also have "\<dots> = - 1 - uint val"
  proof (rule signed_take_bit_int_eq_self)
    from a have "uint val < 2 ^ 63" by (simp add: maxInt64_def word_le_def)
    then show "- (2 ^ 64) \<le> - 1 - uint val" by simp
    have "0 \<le> uint val" "(0::int) < 2 ^ 64" by simp_all
    then show "- 1 - uint val < 2 ^ 64" by linarith
  qed
  finally show ?thesis .
qed

lemma gt_maxInt64: "(val::uint64) > maxInt64 \<longleftrightarrow> uint val > 2 ^ 63 - 1"
  by (simp add: maxInt64_def word_less_def)

lemma IntDec_neq: "IntDecConvertNone \<noteq> IntDecConvertSigned"
  by (simp add: IntDecConvertNone_def IntDecConvertSigned_def)

lemma parse_IUint:
  "parse L dm s (IUint val) =
     (if intDec dm = IntDecConvertNone then (Some (TUint Sz64, VUint (unat val)), None)
      else if val > maxInt64
      then (None, Some (UnmarshalTypeError cborTypePositiveInt (TInt Sz64) None
                          (MsgOverflowsInt64 (uint val))))
      else (Some (TInt Sz64, VInt (uint val)), None))"
  by (auto simp: parse.simps parse_item.simps checkBuiltinTag_def sint_small)

lemma parse_INint:
  "parse L dm s (INint val) =
     (if val > maxInt64 then (Some (TBigInt, VBigInt (- 1 - uint val)), None)
      else (Some (TInt Sz64, VInt (- 1 - uint val)), None))"
  using sint_xor_small [of val]
  by (auto simp: parse.simps parse_item.simps checkBuiltinTag_def)

lemma parseToValue_iface:
  "\<not> nextCBORNil it \<Longrightarrow> nextCBORType it \<noteq> cborTypeTag \<Longrightarrow>
   parseToValue L dm it (TIface, v) TIface =
     (case parse L dm False it of (iv, e) \<Rightarrow> (e, if iv \<noteq> None then VIface iv else v))"
  by (cases it)
     (simp_all add: parseToValue.simps parseToValue_tags.simps parseToValue_item.simps
       checkBuiltinTag_def spclType_def)

text \<open>
  C8.  Into a generic target (\<open>parse\<close>, and \<open>parseToValue\<close> on a target of type \<open>any\<close>): a
  CBOR unsigned integer decodes to the \<open>uint64\<close> of its value under \<open>IntDecConvertNone\<close>;
  under \<open>IntDecConvertSigned\<close> it decodes to the \<open>int64\<close> of its value, and an error is
  returned exactly when the value is above the largest \<open>int64\<close> (then the target is left
  as it is); a CBOR negative integer decodes to the signed value \<open>-1 - val\<close>, as an
  \<open>int64\<close> when it fits and as a \<open>big.Int\<close> when it does not.
\<close>

theorem generic_integer_decoding:
  "(intDec dm = IntDecConvertNone \<longrightarrow>
      parse L dm s (IUint val) = (Some (TUint Sz64, VUint (unat val)), None)
      \<and> parseToValue L dm (IUint val) (TIface, v) TIface
          = (None, VIface (Some (TUint Sz64, VUint (unat val)))))
   \<and> (intDec dm = IntDecConvertSigned \<longrightarrow>
      (snd (parse L dm s (IUint val)) \<noteq> None \<longleftrightarrow> uint val > 2 ^ 63 - 1)
      \<and> (uint val \<le> 2 ^ 63 - 1 \<longrightarrow>
           parse L dm s (IUint val) = (Some (TInt Sz64, VInt (uint val)), None)
           \<and> parseToValue L dm (IUint val) (TIface, v) TIface
               = (None, VIface (Some (TInt Sz64, VInt (uint val)))))
      \<and> (uint val > 2 ^ 63 - 1 \<longrightarrow>
           parse L dm s (IUint val)
             = (None, Some (UnmarshalTypeError cborTypePositiveInt (TInt Sz64) None
                              (MsgOverflowsInt64 (uint val))))
           \<and> parseToValue L dm (IUint val) (TIface, v) TIface
               = (Some (UnmarshalTypeError cborTypePositiveInt (TInt Sz64) None
                          (MsgOverflowsInt64 (uint val))), v)))
   \<and> parse L dm s (INint val)
        = (Some (if uint val > 2 ^ 63 - 1 then (TBigInt, VBigInt (- 1 - uint val))
                 else (TInt Sz64, VInt (- 1 - uint val))), None)
   \<and> parseToValue L dm (INint val) (TIface, v) TIface
        = (None, VIface (Some (if uint val > 2 ^ 63 - 1 then (TBigInt, VBigInt (- 1 - uint val))
                               else (TInt Sz64, VInt (- 1 - uint val)))))"
  using IntDec_neq
  by (simp add: parse_IUint parse_INint parseToValue_iface nextCBORNil_def gt_maxInt64 not_less)

text \<open>C8, witness: 500 under both policies, and 2^64 - 1 under the signed policy.\<close>

theorem generic_integer_decoding_witness:
  "intDec defaultDecMode = IntDecConvertNone
   \<and> parse sampleLib defaultDecMode True (IUint 500) = (Some (TUint Sz64, VUint 500), None)
   \<and> intDec (defaultDecMode\<lparr>intDec := IntDecConvertSigned\<rparr>) = IntDecConvertSigned
   \<and> uint (500 :: uint64) \<le> 2 ^ 63 - 1
   \<and> parse sampleLib (defaultDecMode\<lparr>intDec := IntDecConvertSigned\<rparr>) True (IUint 500)
       = (Some (TInt Sz64, VInt 500), None)
   \<and> uint (0xffffffffffffffff :: uint64) > 2 ^ 63 - 1
   \<and> snd (parse sampleLib (defaultDecMode\<lparr>intDec := IntDecConvertSigned\<rparr>) True
             (IUint 0xffffffffffffffff)) \<noteq> None"
proof -
  have a: "intDec defaultDecMode = IntDecConvertNone"
    by (simp add: defaultDecMode_def IntDecConvertNone_def)
  have b: "intDec (defaultDecMode\<lparr>intDec := IntDecConvertSigned\<rparr>) = IntDecConvertSigned"
    by simp
  have c: "uint (500 :: uint64) \<le> 2 ^ 63 - 1" "uint (0xffffffffffffffff :: uint64) > 2 ^ 63 - 1"
    by simp_all
  from generic_integer_decoding [of defaultDecMode sampleLib True 500] a
  have 1: "parse sampleLib defaultDecMode True (IUint 500) = (Some (TUint Sz64, VUint 500), None)"
    by simp
  from generic_integer_decoding [of "defaultDecMode\<lparr>intDec := IntDecConvertSigned\<rparr>"
      sampleLib True 500] b c
  have 2: "parse sampleLib (defaultDecMode\<lparr>intDec := IntDecConvertSigned\<rparr>) True (IUint 500)
       = (Some (TInt Sz64, VInt 500), None)"
    by simp
  from generic_integer_decoding [of "defaultDecMode\<lparr>intDec := IntDecConvertSigned\<rparr>"
      sampleLib True "0xffffffffffffffff"] b c
  have 3: "snd (parse sampleLib (defaultDecMode\<lparr>intDec := IntDecConvertSigned\<rparr>) True
             (IUint 0xffffffffffffffff)) \<noteq> None"
    by simp
  from a b c 1 2 3 show ?thesis by simp
qed

section \<open>Arrays into structs\<close>

lemma checkRegisteredTag_notRequired:
  "nextCBORType it \<noteq> cborTypeTag \<Longrightarrow> tagNotRequired dm tInfo \<Longrightarrow>
   checkRegisteredTag dm it tInfo = Inr it"
  by (auto simp: checkRegisteredTag_not_tag tagNotRequired_def split: option.splits)

lemma checkRegisteredTag_Inr_not_tag:
  "nextCBORType it \<noteq> cborTypeTag \<Longrightarrow> checkRegisteredTag dm it tInfo = Inr it' \<Longrightarrow> it' = it"
  by (auto simp: checkRegisteredTag_not_tag split: option.splits if_splits)

lemma parseArrayToStruct_mismatch:
  assumes "typeErr (getDecodingStructType (nonPtrType tInfo)) = None"
    and "toArray (getDecodingStructType (nonPtrType tInfo))"
    and "length xs \<noteq> length (structFields (getDecodingStructType (nonPtrType tInfo)))"
  shows "parseArrayToStruct L dm xs (ty, v) tInfo =
     (Some (UnmarshalTypeError cborTypeArray tInfo None MsgDifferentNumberOfElements), v)"
  using assms by (simp add: parseArrayToStruct.simps)

lemma parseArrayToStruct_success:
  assumes "fst (parseArrayToStruct L dm xs (ty, v) tInfo) = None"
  shows "toArray (getDecodingStructType (nonPtrType tInfo))
     \<and> length xs = length (structFields (getDecodingStructType (nonPtrType tInfo)))"
  using assms by (auto simp: parseArrayToStruct.simps split: option.splits if_splits)

lemma parseToValue_array_struct:
  "parseToValue L dm (IArray hs xs) (TStruct name ts st, v) (TStruct name ts st) =
     (case checkRegisteredTag dm (IArray hs xs) (TStruct name ts st) of
        Inl e \<Rightarrow> (Some e, v)
      | Inr it' \<Rightarrow> parseArrayToStruct L dm xs (TStruct name ts st, v) (TStruct name ts st))"
  by (auto simp: parseToValue.simps parseToValue_tags.simps parseToValue_item.simps
      nextCBORNil_def checkBuiltinTag_def spclType_def nonPtrKind_def
      split: sum.splits dest!: checkRegisteredTag_Inr_not_tag [rotated])

text \<open>
  C6 (as amended).  Decoding a CBOR array into a struct with the toarray option whose
  type has no recorded error (\<open>structType.err\<close> is nil): when the number of items differs
  from the number of fields, \<open>parseArrayToStruct\<close> returns an \<open>UnmarshalTypeError\<close> and
  the struct is as it was (nothing is truncated or padded), and so does \<open>parseToValue\<close> on
  the array, with the message of the count check when no tag is registered as required
  for the struct type and the message of the tag check otherwise.  And whenever decoding
  an array into a struct returns no error, the struct type has no recorded error, it has
  the toarray option and the two numbers are equal.
\<close>

theorem toarray_struct_needs_exact_count:
  "(typeErr st = None \<and> toArray st \<and> length xs \<noteq> length (structFields st) \<longrightarrow>
      parseArrayToStruct L dm xs (TStruct name ts st, v) (TStruct name ts st)
        = (Some (UnmarshalTypeError cborTypeArray (TStruct name ts st) None
                   MsgDifferentNumberOfElements), v)
      \<and> parseToValue L dm (IArray hs xs) (TStruct name ts st, v) (TStruct name ts st)
          = (Some (UnmarshalTypeError cborTypeArray (TStruct name ts st) None
                     (if tagNotRequired dm (TStruct name ts st)
                      then MsgDifferentNumberOfElements else MsgExpectTag)), v))
   \<and> (fst (parseToValue L dm (IArray hs xs) (TStruct name ts st, v) (TStruct name ts st)) = None
        \<longrightarrow> typeErr st = None \<and> toArray st \<and> length xs = length (structFields st))"
proof -
  let ?T = "TStruct name ts st"
  have g: "getDecodingStructType ?T = st"
    by (simp add: getDecodingStructType_def)
  note m = parseArrayToStruct_mismatch [of ?T xs L dm ?T v, simplified, unfolded g]
  have s: "fst (parseArrayToStruct L dm xs (?T, v) ?T) = None
      \<Longrightarrow> typeErr st = None \<and> toArray st \<and> length xs = length (structFields st)"
    by (auto simp: parseArrayToStruct.simps g split: option.splits if_splits)
  have r: "checkRegisteredTag dm (IArray hs xs) ?T
        = Inl (UnmarshalTypeError cborTypeArray ?T None MsgExpectTag)"
    if "\<not> tagNotRequired dm ?T"
    using that by (auto simp: checkRegisteredTag_not_tag tagNotRequired_def split: option.splits)
  have q: "checkRegisteredTag dm (IArray hs xs) ?T = Inr (IArray hs xs)"
    if "tagNotRequired dm ?T"
    using that by (simp add: checkRegisteredTag_notRequired)
  have p: "parseToValue L dm (IArray hs xs) (?T, v) ?T =
      (if tagNotRequired dm ?T then parseArrayToStruct L dm xs (?T, v) ?T
       else (Some (UnmarshalTypeError cborTypeArray ?T None MsgExpectTag), v))"
    by (simp add: parseToValue_array_struct r q)
  have 1: "parseArrayToStruct L dm xs (?T, v) ?T
        = (Some (UnmarshalTypeError cborTypeArray ?T None MsgDifferentNumberOfElements), v)"
    if "typeErr st = None \<and> toArray st \<and> length xs \<noteq> length (structFields st)"
    using that m by simp
  have 2: "typeErr st = None \<and> toArray st \<and> length xs = length (structFields st)"
    if "fst (parseToValue L dm (IArray hs xs) (?T, v) ?T) = None"
  proof -
    from that have "fst (parseArrayToStruct L dm xs (?T, v) ?T) = None"
      unfolding p by (simp split: if_splits)
    then show ?thesis by (rule s)
  qed
  have 3: "parseToValue L dm (IArray hs xs) (?T, v) ?T
          = (Some (UnmarshalTypeError cborTypeArray ?T None
                     (if tagNotRequired dm ?T
                      then MsgDifferentNumberOfElements else MsgExpectTag)), v)"
    if "typeErr st = None \<and> toArray st \<and> length xs \<noteq> length (structFields st)"
    unfolding p using 1 [OF that] by simp
  show ?thesis
  proof (intro conjI impI)
    assume a: "typeErr st = None \<and> toArray st \<and> length xs \<noteq> length (structFields st)"
    show "parseArrayToStruct L dm xs (?T, v) ?T
        = (Some (UnmarshalTypeError cborTypeArray ?T None MsgDifferentNumberOfElements), v)"
      by (rule 1 [OF a])
    show "parseToValue L dm (IArray hs xs) (?T, v) ?T
          = (Some (UnmarshalTypeError cborTypeArray ?T None
                     (if tagNotRequired dm ?T
                      then MsgDifferentNumberOfElements else MsgExpectTag)), v)"
      by (rule 3 [OF a])
  next
    assume b: "fst (parseToValue L dm (IArray hs xs) (?T, v) ?T) = None"
    from 2 [OF b] show "typeErr st = None" "toArray st" "length xs = length (structFields st)"
      by simp_all
  qed
qed

text \<open>
  C6, counterexample to the claim as stated: \<open>parseArrayToStruct\<close> returns
  \<open>structType.err\<close> before it looks at the toarray option and at the counts, so for a
  toarray struct of one field whose type has a recorded error an array of two items gives
  that error, which is not an \<open>UnmarshalTypeError\<close>.
\<close>

theorem toarray_struct_type_error_counterexample:
  "toArray (DecodingStructType [Fld ''A'' False 0 0 (TInt Sz64)] (Some ''bad'') True)
   \<and> length [IUint 1, IUint 2]
       \<noteq> length (structFields (DecodingStructType [Fld ''A'' False 0 0 (TInt Sz64)] (Some ''bad'') True))
   \<and> parseToValue sampleLib defaultDecMode (IArray True [IUint 1, IUint 2])
        (TStruct ''T'' [TInt Sz64]
           (DecodingStructType [Fld ''A'' False 0 0 (TInt Sz64)] (Some ''bad'') True),
         VStruct [VInt 0])
        (TStruct ''T'' [TInt Sz64]
           (DecodingStructType [Fld ''A'' False 0 0 (TInt Sz64)] (Some ''bad'') True))
      = (Some (ErrStructType ''bad''), VStruct [VInt 0])"
  by code_simp

text \<open>C6, witness: a struct of two fields with the toarray option, an array of three
  items and one of two.\<close>

theorem toarray_struct_needs_exact_count_witness:
  "typeErr (DecodingStructType [Fld ''A'' False 0 0 (TInt Sz64), Fld ''B'' False 0 1 TString] None True)
     = None
   \<and> toArray (DecodingStructType [Fld ''A'' False 0 0 (TInt Sz64), Fld ''B'' False 0 1 TString] None True)
   \<and> length [IUint 1, IText True [''x''], IUint 3]
       \<noteq> length (structFields (DecodingStructType
            [Fld ''A'' False 0 0 (TInt Sz64), Fld ''B'' False 0 1 TString] None True))
   \<and> parseToValue sampleLib defaultDecMode (IArray True [IUint 1, IText True [''x''], IUint 3])
        (TStruct ''T'' [TInt Sz64, TString] (DecodingStructType
            [Fld ''A'' False 0 0 (TInt Sz64), Fld ''B'' False 0 1 TString] None True),
         VStruct [VInt 0, VString []])
        (TStruct ''T'' [TInt Sz64, TString] (DecodingStructType
            [Fld ''A'' False 0 0 (TInt Sz64), Fld ''B'' False 0 1 TString] None True))
      = (Some (UnmarshalTypeError cborTypeArray
                 (TStruct ''T'' [TInt Sz64, TString] (DecodingStructType
                    [Fld ''A'' False 0 0 (TInt Sz64), Fld ''B'' False 0 1 TString] None True))
                 None MsgDifferentNumberOfElements),
         VStruct [VInt 0, VString []])
   \<and> fst (parseToValue sampleLib defaultDecMode (IArray True [IUint 1, IText True [''x'']])
        (TStruct ''T'' [TInt Sz64, TString] (DecodingStructType
            [Fld ''A'' False 0 0 (TInt Sz64), Fld ''B'' False 0 1 TString] None True),
         VStruct [VInt 0, VString []])
        (TStruct ''T'' [TInt Sz64, TString] (DecodingStructType
            [Fld ''A'' False 0 0 (TInt Sz64), Fld ''B'' False 0 1 TString] None True))) = None
   \<and> length [IUint 1, IText True [''x'']]
       = length (structFields (DecodingStructType
            [Fld ''A'' False 0 0 (TInt Sz64), Fld ''B'' False 0 1 TString] None True))"
proof -
  let ?st = "DecodingStructType [Fld ''A'' False 0 0 (TInt Sz64), Fld ''B'' False 0 1 TString] None True"
  let ?T = "TStruct ''T'' [TInt Sz64, TString] ?st"
  have ok: "fst (parseToValue sampleLib defaultDecMode (IArray True [IUint 1, IText True [''x'']])
        (?T, VStruct [VInt 0, VString []]) ?T) = None"
    by code_simp
  have t: "tagNotRequired defaultDecMode ?T"
    by (simp add: tagNotRequired_def getRegisteredTagItem_def defaultDecMode_def)
  note th = toarray_struct_needs_exact_count [of ?st _ sampleLib defaultDecMode "''T''"
      "[TInt Sz64, TString]" "VStruct [VInt 0, VString []]" True]
  from th [of "[IUint 1, IText True [''x''], IUint 3]"] t
  have a: "parseToValue sampleLib defaultDecMode (IArray True [IUint 1, IText True [''x''], IUint 3])
        (?T, VStruct [VInt 0, VString []]) ?T
      = (Some (UnmarshalTypeError cborTypeArray ?T None MsgDifferentNumberOfElements),
         VStruct [VInt 0, VString []])"
    by simp
  from th [of "[IUint 1, IText True [''x'']]"] ok
  have b: "length [IUint 1, IText True [''x'']] = length (structFields ?st)"
    by blast
  from a b ok show ?thesis by simp
qed


section \<open>The well-formedness pass\<close>














lemmas valid_eval = valid_def wellformed.simps wellformedN.simps wellformedIndef.simps
  indefChunks.simps getHead_def cborTypeOf_def defaultDecMode_def






section \<open>Maps into structs: the field of a key\<close>




















text \<open>
  C4, counterexample to the claim as stated: before it calls \<open>strings.EqualFold\<close> the code
  compares the lengths in bytes (\<open>len(fld.name) == keyLen\<close>).  The key made of the long s
  equals the field name \<open>S\<close> without regard to case but is two bytes long: the field is
  not found, by neither comparison, and the map \<open>{"\<dots>": 1}\<close> with that key leaves the
  field \<open>S\<close> as it was.
\<close>

theorem long_s_key_counterexample:
  "equalFold foldLib ''S'' [CHR 0xC5, CHR 0xBF]
   \<and> matchTextKey_spec foldLib [Fld ''S'' False 0 0 (TInt Sz64)] [False] [CHR 0xC5, CHR 0xBF] = Some 0
   \<and> matchTextKey foldLib [Fld ''S'' False 0 0 (TInt Sz64)] [False] [CHR 0xC5, CHR 0xBF] = None
   \<and> valid defaultDecMode [0xa1, 0x62, 0xc5, 0xbf, 0x01]
       = Inr (IMap True [(IText True [[CHR 0xC5, CHR 0xBF]], IUint 1)], [])
   \<and> Unmarshal foldLib [0xa1, 0x62, 0xc5, 0xbf, 0x01]
         (Some (TPtr (TStruct ''T'' [TInt Sz64]
            (DecodingStructType [Fld ''S'' False 0 0 (TInt Sz64)] None False)),
          VPtr (Some (VStruct [VInt 0]))))
       = (None,
          Some (TPtr (TStruct ''T'' [TInt Sz64]
            (DecodingStructType [Fld ''S'' False 0 0 (TInt Sz64)] None False)),
          VPtr (Some (VStruct [VInt 0]))))"
proof -
  have sb: "stringOfBytes [0xc5, 0xbf] = [CHR 0xC5, CHR 0xBF]" by code_simp
  have v: "valid defaultDecMode [0xa1, 0x62, 0xc5, 0xbf, 0x01]
       = Inr (IMap True [(IText True [[CHR 0xC5, CHR 0xBF]], IUint 1)], [])"
    by (simp add: valid_eval sb)
  have e: "equalFold foldLib ''S'' [CHR 0xC5, CHR 0xBF]" by code_simp
  have m: "matchTextKey_spec foldLib [Fld ''S'' False 0 0 (TInt Sz64)] [False] [CHR 0xC5, CHR 0xBF]
      = Some 0"
    "matchTextKey foldLib [Fld ''S'' False 0 0 (TInt Sz64)] [False] [CHR 0xC5, CHR 0xBF] = None"
    by code_simp+
  have u: "parseToValue foldLib defaultDecMode (IMap True [(IText True [[CHR 0xC5, CHR 0xBF]], IUint 1)])
       (TStruct ''T'' [TInt Sz64] (DecodingStructType [Fld ''S'' False 0 0 (TInt Sz64)] None False),
        VStruct [VInt 0])
       (TStruct ''T'' [TInt Sz64] (DecodingStructType [Fld ''S'' False 0 0 (TInt Sz64)] None False))
     = (None, VStruct [VInt 0])"
    by code_simp
  from e m v u show ?thesis
    by (simp add: Unmarshal_def decMode_Unmarshal_def value_def)
qed





section \<open>The first error is returned, the decode goes on\<close>























section \<open>Duplicate map keys\<close>






end
